theory Spec2Isabelle
  imports Main "HOL-Library.Sublist" "HOL-Library.AList"
begin

section \<open>Scope of the model\<close>

text \<open>
  The development embeds the variable-resolution helpers of
  \<^verbatim>\<open>build-scripts/helpers.ts\<close> and the two validators
  (\<^verbatim>\<open>validate-docker-compose.ts\<close> and the template validator) as HOL functions.

  \<^item> JavaScript strings are \<open>string\<close> (lists of 8-bit characters); the inputs of interest
    are ASCII, where a character, a UTF-16 code unit and a UTF-8 byte coincide.
  \<^item> A JavaScript number is an \<open>int\<close>, and \<open>NaN\<close> is \<open>None\<close> of \<open>int option\<close>. The numbers
    of the program are lengths, ports and counters. A length read from a numeral is a
    double: exact below \<open>2 ^ 53\<close>, rounded (up to \<open>Infinity\<close>) above. Every length beyond
    the limits of the runtime (\<open>2 ^ 31 - 1\<close> bytes for \<open>randomBytes\<close>, \<open>2 ^ 29 - 24\<close>
    characters for a string of V8) raises an exception, and rounding is monotone, so the
    integer and the double it is rounded to fall on the same side of each limit: the model
    compares the integer.
  \<^item> An object used as a dictionary (\<open>Record<string, string>\<close>) is a plain object: the
    association list of its own properties in the order of \<open>Object.entries\<close>, over the
    members every plain object inherits from \<open>Object.prototype\<close> (\<open>constructor\<close>,
    \<open>toString\<close>, \<open>__proto__\<close> and the like). A read \<open>obj[name]\<close> finds an own property
    first and an inherited member otherwise; a write \<open>obj[name] = v\<close> stores an own
    property, except under the name \<open>__proto__\<close>, whose inherited setter drops a string.
  \<^item> Everything the runtime answers from outside the program (\<open>Math.random\<close>,
    \<open>randomBytes\<close>, \<open>crypto.randomUUID\<close>, \<open>Date.now\<close>) is read from a \<open>world\<close>: the
    infinite sequence of the answers to come. A function that consumes answers returns
    the rest of the sequence. Theorems hold for every world.
  \<^item> An exception is a value \<open>Inl e\<close> of a sum type.
\<close>

section \<open>Strings and numbers of the runtime\<close>

type_synonym number = "int option"

definition startsWith :: "string \<Rightarrow> string \<Rightarrow> bool" where
  "startsWith s p = prefix p s"

definition endsWith :: "string \<Rightarrow> string \<Rightarrow> bool" where
  "endsWith s p = suffix p s"

text \<open>\<open>s.includes(p)\<close>.\<close>

fun includes_str :: "string \<Rightarrow> string \<Rightarrow> bool" where
  "includes_str [] p = (p = [])"
| "includes_str (c # cs) p = (prefix p (c # cs) \<or> includes_str cs p)"

text \<open>\<open>s.split(sep)\<close> for a one-character separator: never the empty list.\<close>

fun split :: "char \<Rightarrow> string \<Rightarrow> string list" where
  "split sep [] = [[]]"
| "split sep (c # cs) =
     (if c = sep then [] # split sep cs
      else (case split sep cs of x # xs \<Rightarrow> (c # x) # xs | [] \<Rightarrow> [[c]]))"

text \<open>\<open>xs.join(sep)\<close>.\<close>

fun join :: "string \<Rightarrow> string list \<Rightarrow> string" where
  "join sep [] = []"
| "join sep [x] = x"
| "join sep (x # y # ys) = x @ sep @ join sep (y # ys)"

definition is_digit :: "char \<Rightarrow> bool" where
  "is_digit c = (c \<in> set ''0123456789'')"

definition digit_val :: "char \<Rightarrow> nat" where
  "digit_val c = of_char c - 48"

definition digits_val :: "string \<Rightarrow> nat" where
  "digits_val ds = foldl (\<lambda>a c. 10 * a + digit_val c) 0 ds"

text \<open>The white space \<open>parseInt\<close> skips (its ASCII part): tab, line feed, vertical tab,
  form feed, carriage return, space.\<close>

definition is_space :: "char \<Rightarrow> bool" where
  "is_space c = (c \<in> set [CHR 0x09, CHR 0x0A, CHR 0x0B, CHR 0x0C, CHR 0x0D, CHR 0x20])"

text \<open>\<open>Number.parseInt(s, 10)\<close>: leading white space, an optional sign, then the longest
  run of decimal digits; \<open>NaN\<close> when the run is empty. Text after the digits is ignored.\<close>

definition parseInt :: "string \<Rightarrow> number" where
  "parseInt s =
     (let t = dropWhile is_space s;
          neg = (t \<noteq> [] \<and> hd t = CHR ''-'');
          u = (if t \<noteq> [] \<and> (hd t = CHR ''-'' \<or> hd t = CHR ''+'') then tl t else t);
          ds = takeWhile is_digit u
      in if ds = [] then None
         else Some (if neg then - int (digits_val ds) else int (digits_val ds)))"

text \<open>\<open>x || d\<close> for a number \<open>x\<close>: \<open>NaN\<close> and \<open>0\<close> are falsy.\<close>

definition num_or :: "number \<Rightarrow> int \<Rightarrow> number" where
  "num_or x d = (case x of None \<Rightarrow> Some d | Some n \<Rightarrow> if n = 0 then Some d else Some n)"

text \<open>\<open>n.toString()\<close> for an integer.\<close>

definition digit_char :: "nat \<Rightarrow> char" where
  "digit_char d = ''0123456789'' ! d"

function dec_nat :: "nat \<Rightarrow> string" where
  "dec_nat n = (if n < 10 then [digit_char n] else dec_nat (n div 10) @ [digit_char (n mod 10)])"
  by pat_completeness auto
termination
  by (relation "measure id") auto

declare dec_nat.simps [simp del]

definition num_toString :: "number \<Rightarrow> string" where
  "num_toString x =
     (case x of None \<Rightarrow> ''NaN''
      | Some n \<Rightarrow> if n < 0 then CHR ''-'' # dec_nat (nat (- n)) else dec_nat (nat n))"

definition to_lower :: "char \<Rightarrow> char" where
  "to_lower c =
     (if (65::nat) \<le> of_char c \<and> of_char c \<le> (90::nat) then char_of (of_char c + (32::nat)) else c)"

definition toLowerCase :: "string \<Rightarrow> string" where
  "toLowerCase s = map to_lower s"

definition trimStart :: "string \<Rightarrow> string" where
  "trimStart s = dropWhile is_space s"

definition trimEnd :: "string \<Rightarrow> string" where
  "trimEnd s = rev (dropWhile is_space (rev s))"

section \<open>The world: random numbers and the clock\<close>

type_synonym world = "nat \<Rightarrow> nat"

text \<open>The exceptions of the runtime: a \<open>RangeError\<close>, a \<open>TypeError\<close>, and the plain \<open>Error\<close>
  with the code \<open>ERR_STRING_TOO_LONG\<close>.\<close>

datatype error = RangeError string | TypeError string | StringTooLong string

definition message :: "error \<Rightarrow> string" where
  "message e = (case e of RangeError m \<Rightarrow> m | TypeError m \<Rightarrow> m | StringTooLong m \<Rightarrow> m)"

text \<open>The longest string of V8 (64-bit): \<open>2 ^ 29 - 24\<close> characters.\<close>

definition max_string_length :: int where
  "max_string_length = 536870888"

text \<open>\<open>Math.floor(Math.random() * k)\<close>: some integer in \<open>[0, k)\<close>.\<close>

definition random_below :: "nat \<Rightarrow> world \<Rightarrow> nat \<times> world" where
  "random_below k w = (w 0 mod k, \<lambda>i. w (Suc i))"

text \<open>\<open>Date.now()\<close>: the next reading of the clock, in milliseconds.\<close>

definition date_now :: "world \<Rightarrow> nat \<times> world" where
  "date_now w = (w 0, \<lambda>i. w (Suc i))"

text \<open>\<open>randomBytes(size)\<close> of Node's \<open>crypto\<close>: throws a \<open>RangeError\<close> unless
  \<open>0 \<le> size \<le> 2 ^ 31 - 1\<close>.\<close>

definition randomBytes :: "number \<Rightarrow> world \<Rightarrow> error + nat list \<times> world" where
  "randomBytes sz w =
     (case sz of
        None \<Rightarrow> Inl (RangeError ''The value of size is out of range'')
      | Some n \<Rightarrow>
          if n < 0 \<or> 2147483647 < n
          then Inl (RangeError ''The value of size is out of range'')
          else Inr (map (\<lambda>i. w i mod 256) [0..<nat n], \<lambda>i. w (i + nat n)))"

section \<open>Encodings\<close>

definition hex_digit :: "nat \<Rightarrow> char" where
  "hex_digit d = ''0123456789abcdef'' ! d"

definition toHex :: "nat list \<Rightarrow> string" where
  "toHex bs = concat (map (\<lambda>b. [hex_digit (b div 16), hex_digit (b mod 16)]) bs)"

definition b64_std :: string where
  "b64_std = ''ABCDEFGHIJKLMNOPQRSTUVWXYZabcdefghijklmnopqrstuvwxyz0123456789+/''"

definition b64_url :: string where
  "b64_url = ''ABCDEFGHIJKLMNOPQRSTUVWXYZabcdefghijklmnopqrstuvwxyz0123456789-_''"

text \<open>Base64 over an alphabet, three bytes to four characters, with or without padding.\<close>

fun base64 :: "string \<Rightarrow> bool \<Rightarrow> nat list \<Rightarrow> string" where
  "base64 al pad (a # b # c # rest) =
     [al ! (a div 4), al ! ((a mod 4) * 16 + b div 16),
      al ! ((b mod 16) * 4 + c div 64), al ! (c mod 64)] @ base64 al pad rest"
| "base64 al pad [a, b] =
     [al ! (a div 4), al ! ((a mod 4) * 16 + b div 16), al ! ((b mod 16) * 4)]
     @ (if pad then ''='' else [])"
| "base64 al pad [a] =
     [al ! (a div 4), al ! ((a mod 4) * 16)] @ (if pad then ''=='' else [])"
| "base64 al pad [] = []"

text \<open>The text of \<open>bytes.toString("base64")\<close> and of
  \<open>Buffer.from(s).toString("base64url")\<close>.\<close>

definition toBase64 :: "nat list \<Rightarrow> string" where
  "toBase64 bs = base64 b64_std True bs"

definition toBase64url :: "string \<Rightarrow> string" where
  "toBase64url s = base64 b64_url False (map of_char s)"

text \<open>\<open>bytes.toString("hex")\<close> and \<open>bytes.toString("base64")\<close> of a buffer of random bytes:
  two characters a byte, and four characters for every three bytes or part of them. A
  text longer than a string can be is an exception.\<close>

definition toString_hex :: "nat list \<Rightarrow> error + string" where
  "toString_hex bs =
     (if max_string_length < 2 * int (length bs)
      then Inl (StringTooLong ''Cannot create a string longer than 0x1fffffe8 characters'')
      else Inr (toHex bs))"

definition toString_base64 :: "nat list \<Rightarrow> error + string" where
  "toString_base64 bs =
     (if max_string_length < 4 * ((int (length bs) + 2) div 3)
      then Inl (StringTooLong ''Cannot create a string longer than 0x1fffffe8 characters'')
      else Inr (toBase64 bs))"

section \<open>The generators of helpers.ts\<close>

record Schema =
  domain :: "string option"

text \<open>\<open>generateRandomDomain\<close>: the random token is drawn first, then
  \<open>schema.domain || ...\<close> (an empty domain is falsy).\<close>

definition generateRandomDomain :: "Schema \<Rightarrow> world \<Rightarrow> error + string \<times> world" where
  "generateRandomDomain schema w =
     (case randomBytes (Some 8) w of
        Inl e \<Rightarrow> Inl e
      | Inr (bs, w') \<Rightarrow>
          (case toString_hex bs of
             Inl e \<Rightarrow> Inl e
           | Inr random \<Rightarrow>
               Inr (case domain schema of
                      Some d \<Rightarrow> if d \<noteq> [] then d else ''app-'' @ random @ ''.example.com''
                    | None \<Rightarrow> ''app-'' @ random @ ''.example.com'', w')))"

definition generateBase64 :: "number \<Rightarrow> world \<Rightarrow> error + string \<times> world" where
  "generateBase64 len w =
     (case randomBytes len w of
        Inl e \<Rightarrow> Inl e
      | Inr (bs, w') \<Rightarrow> (case toString_base64 bs of Inl e \<Rightarrow> Inl e | Inr s \<Rightarrow> Inr (s, w')))"

definition charset :: string where
  "charset = ''abcdefghijklmnopqrstuvwxyzABCDEFGHIJKLMNOPQRSTUVWXYZ0123456789!@#$%^&*''"

text \<open>\<open>generatePassword\<close>: the loop \<open>for (i = 0; i < length; i++)\<close> runs \<open>length\<close> times
  (no time for a negative or \<open>NaN\<close> length), one random draw each. When \<open>length\<close> is more
  than a string can hold, \<open>password += ...\<close> throws \<open>RangeError: Invalid string length\<close> at
  the first character too many, and the loop never ends normally.\<close>

fun password_loop :: "nat \<Rightarrow> string \<Rightarrow> world \<Rightarrow> string \<times> world" where
  "password_loop 0 password w = (password, w)"
| "password_loop (Suc k) password w =
     (case random_below (length charset) w of
        (i, w') \<Rightarrow> password_loop k (password @ [charset ! i]) w')"

definition generatePassword :: "number \<Rightarrow> world \<Rightarrow> error + string \<times> world" where
  "generatePassword len w =
     (case len of
        None \<Rightarrow> Inr ([], w)
      | Some n \<Rightarrow>
          if max_string_length < n then Inl (RangeError ''Invalid string length'')
          else Inr (password_loop (nat n) [] w))"

definition generateHash :: "number \<Rightarrow> world \<Rightarrow> error + string \<times> world" where
  "generateHash len w =
     (case randomBytes len w of
        Inl e \<Rightarrow> Inl e
      | Inr (bs, w') \<Rightarrow> (case toString_hex bs of Inl e \<Rightarrow> Inl e | Inr s \<Rightarrow> Inr (s, w')))"

section \<open>Dynamically typed values\<close>

text \<open>A value as a TOML, YAML or JSON parser returns it. \<open>undefined\<close> (an absent
  property) is \<open>None\<close> of \<open>jsv option\<close>.\<close>

datatype jsv =
    JNull
  | JBool bool
  | JNum int
  | JStr string
  | JArr "jsv list"
  | JObj "(string \<times> jsv) list"

definition typeof :: "jsv option \<Rightarrow> string" where
  "typeof x =
     (case x of
        None \<Rightarrow> ''undefined''
      | Some JNull \<Rightarrow> ''object''
      | Some (JBool b) \<Rightarrow> ''boolean''
      | Some (JNum n) \<Rightarrow> ''number''
      | Some (JStr s) \<Rightarrow> ''string''
      | Some (JArr xs) \<Rightarrow> ''object''
      | Some (JObj kvs) \<Rightarrow> ''object'')"

text \<open>Truthiness, as \<open>if (x)\<close>, \<open>!x\<close> and \<open>x || y\<close> test it.\<close>

definition truthy :: "jsv option \<Rightarrow> bool" where
  "truthy x =
     (case x of
        None \<Rightarrow> False
      | Some JNull \<Rightarrow> False
      | Some (JBool b) \<Rightarrow> b
      | Some (JNum n) \<Rightarrow> n \<noteq> 0
      | Some (JStr s) \<Rightarrow> s \<noteq> []
      | Some (JArr xs) \<Rightarrow> True
      | Some (JObj kvs) \<Rightarrow> True)"

text \<open>\<open>JSON.stringify\<close>.\<close>

definition hex2 :: "nat \<Rightarrow> string" where
  "hex2 b = [hex_digit (b div 16), hex_digit (b mod 16)]"

definition json_escape :: "char \<Rightarrow> string" where
  "json_escape c =
     (if c = CHR 0x22 then [CHR 0x5C, CHR 0x22]
      else if c = CHR 0x5C then [CHR 0x5C, CHR 0x5C]
      else if c = CHR 0x08 then [CHR 0x5C, CHR ''b'']
      else if c = CHR 0x09 then [CHR 0x5C, CHR ''t'']
      else if c = CHR 0x0A then [CHR 0x5C, CHR ''n'']
      else if c = CHR 0x0C then [CHR 0x5C, CHR ''f'']
      else if c = CHR 0x0D then [CHR 0x5C, CHR ''r'']
      else if (of_char c :: nat) < 32 then [CHR 0x5C, CHR ''u'', CHR ''0'', CHR ''0''] @ hex2 (of_char c)
      else [c])"

definition json_quote :: "string \<Rightarrow> string" where
  "json_quote s = [CHR 0x22] @ concat (map json_escape s) @ [CHR 0x22]"

fun stringify :: "jsv \<Rightarrow> string" where
  "stringify JNull = ''null''"
| "stringify (JBool b) = (if b then ''true'' else ''false'')"
| "stringify (JNum n) = num_toString (Some n)"
| "stringify (JStr s) = json_quote s"
| "stringify (JArr xs) = ''['' @ join '','' (map stringify xs) @ '']''"
| "stringify (JObj kvs) =
     ''{'' @ join '','' (map (\<lambda>kv. json_quote (fst kv) @ '':'' @ stringify (snd kv)) kvs) @ ''}''"

text \<open>What the program asks of its platform beyond the world: \<open>new Date(s).getTime()\<close>
  (\<open>None\<close> is \<open>NaN\<close>, an invalid date) and \<open>JSON.parse\<close> (\<open>None\<close> is its \<open>SyntaxError\<close>).
  Both are parameters of the model.\<close>

record platform =
  date_getTime :: "string \<Rightarrow> number"
  json_parse :: "string \<Rightarrow> jsv option"

section \<open>The scan of \<open>/\${([^}]+)}/g\<close>\<close>

text \<open>A match at the head of \<open>s\<close>: \<open>${\<close>, the longest non-empty run of characters
  other than \<open>}\<close>, then \<open>}\<close>. The result is the run (the capture group) and the text after
  the match. A shorter run cannot match, since the character after it is not \<open>}\<close>.\<close>

definition match_at :: "string \<Rightarrow> (string \<times> string) option" where
  "match_at s =
     (if startsWith s ''${'' then
        (let body = takeWhile (\<lambda>c. c \<noteq> CHR ''}'') (drop 2 s);
             rest = dropWhile (\<lambda>c. c \<noteq> CHR ''}'') (drop 2 s)
         in if body \<noteq> [] \<and> rest \<noteq> [] then Some (body, tl rest) else None)
      else None)"

text \<open>The matches of a global scan, left to right and non-overlapping, with the
  characters between them.\<close>

datatype piece = Text char | Expr string

function pieces :: "string \<Rightarrow> piece list" where
  "pieces [] = []"
| "pieces (c # cs) =
     (case match_at (c # cs) of
        Some (body, rest) \<Rightarrow> Expr body # pieces rest
      | None \<Rightarrow> Text c # pieces cs)"
  by pat_completeness auto
termination
proof (relation "measure length")
  show "wf (measure length)" by simp
next
  fix c cs x2 body rest
  assume a: "match_at (c # cs) = Some x2" "(body, rest) = x2"
  have "length (dropWhile (\<lambda>c. c \<noteq> CHR ''}'') (drop 2 (c # cs))) \<le> length (drop 2 (c # cs))"
    by (rule length_dropWhile_le)
  with a show "(rest, c # cs) \<in> measure length"
    by (auto simp: match_at_def startsWith_def Let_def prefix_def split: if_splits)
next
  fix c :: char and cs :: string
  show "(cs, c # cs) \<in> measure length" by simp
qed

text \<open>\<open>s.replace(re, callback)\<close>: each match is replaced by what the callback returns for
  its capture group; an exception of the callback ends the replacement.\<close>

fun replace_each ::
  "(string \<Rightarrow> world \<Rightarrow> error + string \<times> world) \<Rightarrow> piece list \<Rightarrow> world \<Rightarrow> error + string \<times> world"
where
  "replace_each f [] w = Inr ([], w)"
| "replace_each f (Text c # ps) w =
     (case replace_each f ps w of Inl e \<Rightarrow> Inl e | Inr (out, w') \<Rightarrow> Inr (c # out, w'))"
| "replace_each f (Expr b # ps) w =
     (case f b w of
        Inl e \<Rightarrow> Inl e
      | Inr (s, w') \<Rightarrow>
          (case replace_each f ps w' of Inl e \<Rightarrow> Inl e | Inr (out, w'') \<Rightarrow> Inr (s @ out, w'')))"

section \<open>Variable lookups\<close>

text \<open>The variable maps of the program are plain objects (\<open>processed = {}\<close> in
  \<open>processVariables\<close>, and what the callers of \<open>processValue\<close> pass): \<open>vars\<close> is the list
  of the own properties, all strings. Besides them a plain object answers to the names of
  the members of \<open>Object.prototype\<close>.\<close>

type_synonym vars = "(string \<times> string) list"

definition prototype_names :: "string list" where
  "prototype_names =
     [''constructor'', ''__defineGetter__'', ''__defineSetter__'', ''hasOwnProperty'',
      ''__lookupGetter__'', ''__lookupSetter__'', ''isPrototypeOf'', ''propertyIsEnumerable'',
      ''toString'', ''valueOf'', ''__proto__'', ''toLocaleString'']"

text \<open>What a read \<open>variables[name]\<close> returns: \<open>undefined\<close>, the string of an own property,
  an inherited function (all the inherited members but one are functions), or the object
  \<open>Object.prototype\<close> itself, which the inherited accessor \<open>__proto__\<close> returns.\<close>

datatype property = Undefined | StringValue string | FunctionValue string | PrototypeObject

definition get_property :: "vars \<Rightarrow> string \<Rightarrow> property" where
  "get_property variables name =
     (case map_of variables name of
        Some v \<Rightarrow> StringValue v
      | None \<Rightarrow>
          if name = ''__proto__'' then PrototypeObject
          else if name \<in> set prototype_names then FunctionValue name
          else Undefined)"

text \<open>A write \<open>obj[key] = v\<close> of a string \<open>v\<close>: an update of the association list (a new key
  goes to the end). Under the name \<open>__proto__\<close>, unless the object has an own property of
  that name, the write reaches the inherited setter, which ignores a value that is
  neither an object nor \<open>null\<close>: nothing is stored.\<close>

definition set_property :: "string \<Rightarrow> string \<Rightarrow> vars \<Rightarrow> vars" where
  "set_property key v obj =
     (if key = ''__proto__'' \<and> map_of obj key = None then obj else AList.update key v obj)"

definition typeof_property :: "property \<Rightarrow> string" where
  "typeof_property x =
     (case x of
        Undefined \<Rightarrow> ''undefined''
      | StringValue s \<Rightarrow> ''string''
      | FunctionValue f \<Rightarrow> ''function''
      | PrototypeObject \<Rightarrow> ''object'')"

definition truthy_property :: "property \<Rightarrow> bool" where
  "truthy_property x =
     (case x of
        Undefined \<Rightarrow> False
      | StringValue s \<Rightarrow> s \<noteq> []
      | FunctionValue f \<Rightarrow> True
      | PrototypeObject \<Rightarrow> True)"

text \<open>The text of a built-in function, as \<open>String(f)\<close> gives it in V8; the member
  \<open>constructor\<close> is the function \<open>Object\<close>, every other one is named like its property.\<close>

definition function_text :: "string \<Rightarrow> string" where
  "function_text f =
     ''function '' @ (if f = ''constructor'' then ''Object'' else f) @ ''() { [native code] }''"

text \<open>\<open>x || other\<close> for a string or \<open>undefined\<close>: an absent and an empty value are both
  falsy.\<close>

definition str_or :: "string option \<Rightarrow> string \<Rightarrow> string" where
  "str_or x other = (case x of None \<Rightarrow> other | Some v \<Rightarrow> if v \<noteq> [] then v else other)"

text \<open>\<open>variables[name] || other\<close> as the text that \<open>replace\<close> puts in for what its
  callback returns: an inherited member is truthy, and \<open>replace\<close> converts it to a
  string.\<close>

definition property_or :: "property \<Rightarrow> string \<Rightarrow> string" where
  "property_or x other =
     (case x of
        Undefined \<Rightarrow> str_or None other
      | StringValue v \<Rightarrow> str_or (Some v) other
      | FunctionValue f \<Rightarrow> function_text f
      | PrototypeObject \<Rightarrow> ''[object Object]'')"

text \<open>The second \<open>replace\<close> of \<open>processValue\<close>: \<open>variables[varName] || match\<close> for each
  match.\<close>

definition replace_vars :: "vars \<Rightarrow> string \<Rightarrow> string" where
  "replace_vars variables s =
     concat (map (\<lambda>p. case p of
                         Text c \<Rightarrow> [c]
                       | Expr varName \<Rightarrow>
                           property_or (get_property variables varName) (''${'' @ varName @ ''}''))
                 (pieces s))"

section \<open>The helpers of processValue\<close>

text \<open>\<open>xs[i]\<close>: \<open>undefined\<close> out of range.\<close>

definition nth_opt :: "'a list \<Rightarrow> nat \<Rightarrow> 'a option" where
  "nth_opt xs i = (if i < length xs then Some (xs ! i) else None)"

text \<open>\<open>Number.parseInt(x, 10)\<close> for a string or \<open>undefined\<close>: \<open>undefined\<close> is read as the
  text \<open>undefined\<close>, which has no digits.\<close>

definition parseInt_opt :: "string option \<Rightarrow> number" where
  "parseInt_opt x = (case x of None \<Rightarrow> None | Some s \<Rightarrow> parseInt s)"

text \<open>\<open>crypto.randomUUID()\<close>: sixteen random bytes with the version and variant bits of
  a version 4 UUID, in the groups 8-4-4-4-12.\<close>

definition randomUUID :: "world \<Rightarrow> string \<times> world" where
  "randomUUID w =
     (let bs = map (\<lambda>i. w i mod 256) [0..<16];
          vs = bs[6 := (bs ! 6) mod 16 + 64, 8 := (bs ! 8) mod 64 + 128];
          h = toHex vs
      in (take 8 h @ ''-'' @ take 4 (drop 8 h) @ ''-'' @ take 4 (drop 12 h) @ ''-''
          @ take 4 (drop 16 h) @ ''-'' @ drop 20 h,
          \<lambda>i. w (i + 16)))"

definition adjectives :: "string list" where
  "adjectives = [''cool'', ''smart'', ''fast'', ''quick'', ''super'', ''mega'']"

definition nouns :: "string list" where
  "nouns = [''user'', ''admin'', ''dev'', ''test'', ''demo'', ''guest'']"

definition email_domains :: "string list" where
  "email_domains = [''example.com'', ''test.com'', ''demo.org'']"

text \<open>The \<open>username\<close> branch: an adjective, a noun and a number below 1000.\<close>

definition generateUsername :: "world \<Rightarrow> string \<times> world" where
  "generateUsername w =
     (case random_below (length adjectives) w of
        (a, w1) \<Rightarrow>
          (case random_below (length nouns) w1 of
             (n, w2) \<Rightarrow>
               (case random_below 1000 w2 of
                  (num, w3) \<Rightarrow> (toLowerCase ((adjectives ! a) @ (nouns ! n) @ dec_nat num), w3))))"

text \<open>\<open>Buffer.from(x)\<close> for what a secret can be: the bytes of a string; a function and
  \<open>Object.prototype\<close> are no source of bytes, and the call throws a \<open>TypeError\<close>.\<close>

definition Buffer_from :: "property \<Rightarrow> error + string" where
  "Buffer_from x =
     (case x of
        StringValue s \<Rightarrow> Inr s
      | _ \<Rightarrow> Inl (TypeError ''The first argument must be of type string or an instance of Buffer, ArrayBuffer, or Array or an Array-like Object.''))"

text \<open>\<open>generateJwt(options)\<close>. The three optional fields are arguments; \<open>None\<close> is an
  absent length (also \<open>NaN\<close>, which is as falsy) or payload, \<open>Undefined\<close> an absent secret.
  The secret is a string by its declared type; the \<open>jwt:\<close> branch below can also pass what
  a read of the variable map returned. A generated secret is drawn before the three
  segments are encoded.\<close>

definition jwt_header :: string where
  "jwt_header = toBase64url (stringify (JObj [(''alg'', JStr ''HS256''), (''typ'', JStr ''JWT'')]))"

definition generateJwt ::
  "number \<Rightarrow> property \<Rightarrow> jsv option \<Rightarrow> world \<Rightarrow> error + string \<times> world"
where
  "generateJwt len secret payload w =
     (if (case len of None \<Rightarrow> False | Some n \<Rightarrow> n \<noteq> 0) then
        (case randomBytes len w of
           Inl e \<Rightarrow> Inl e
         | Inr (bs, w') \<Rightarrow> (case toString_hex bs of Inl e \<Rightarrow> Inl e | Inr s \<Rightarrow> Inr (s, w')))
      else
        (let payload' = (case payload of None \<Rightarrow> JObj [] | Some p \<Rightarrow> if truthy payload then p else JObj []);
             header = jwt_header;
             body = toBase64url (stringify payload')
         in case (if truthy_property secret then Inr (secret, w)
                  else (case generatePassword (Some 32) w of
                          Inl e \<Rightarrow> Inl e
                        | Inr (p, w') \<Rightarrow> Inr (StringValue p, w'))) of
              Inl e \<Rightarrow> Inl e
            | Inr (secret', w') \<Rightarrow>
                (case Buffer_from secret' of
                   Inl e \<Rightarrow> Inl e
                 | Inr bytes \<Rightarrow>
                     Inr (header @ ''.'' @ body @ ''.'' @ take 32 (toBase64url bytes), w'))))"

text \<open>\<open>/^\d{1,3}$/\<close>.\<close>

definition digits_1_3 :: "string \<Rightarrow> bool" where
  "digits_1_3 s = (1 \<le> length s \<and> length s \<le> 3 \<and> list_all is_digit s)"

text \<open>An object as the payload of a token. The one object \<open>payload\<close> can be is
  \<open>Object.prototype\<close>, which has no enumerable property: \<open>JSON.stringify\<close> writes it as
  \<open>{}\<close>, like the empty object.\<close>

definition payload_object :: "property \<Rightarrow> jsv option" where
  "payload_object x = (case x of PrototypeObject \<Rightarrow> Some (JObj []) | _ \<Rightarrow> None)"

text \<open>The \<open>jwt:\<close> branch. \<open>payload\<close> is the local variable of the source: a parameter (a
  string or \<open>undefined\<close>) or what the read \<open>variables[payload]\<close> returned. \<open>parsedPayload\<close>
  is assigned three times, as in the source, and the last assignment decides; there
  \<open>payload === null\<close> never holds.\<close>

definition jwt_params :: "platform \<Rightarrow> vars \<Rightarrow> string \<Rightarrow> world \<Rightarrow> error + string \<times> world" where
  "jwt_params pf variables varName w =
     (let params = tl (split CHR '':'' varName) in
      if length params = 1 \<and> hd params \<noteq> [] \<and> digits_1_3 (hd params) then
        generateJwt (parseInt (hd params)) Undefined None w
      else
        (let secret = nth_opt params 0;
             payload0 = (case nth_opt params 1 of None \<Rightarrow> Undefined | Some p \<Rightarrow> StringValue p);
             payload =
               (case payload0 of
                  StringValue p \<Rightarrow>
                    if truthy_property (get_property variables p) then get_property variables p
                    else payload0
                | _ \<Rightarrow> payload0);
             parsedPayload1 = (None :: jsv option);
             parsedPayload2 =
               (case payload of
                  StringValue p \<Rightarrow>
                    if startsWith (trimStart p) ''{'' \<and> endsWith (trimEnd p) ''}''
                    then json_parse pf p
                    else parsedPayload1
                | _ \<Rightarrow> parsedPayload1);
             parsedPayload3 =
               (if typeof_property payload \<noteq> ''object'' then None else payload_object payload)
         in generateJwt None
              (case secret of
                 None \<Rightarrow> Undefined
               | Some s \<Rightarrow>
                   if s \<noteq> [] then
                     (if truthy_property (get_property variables s) then get_property variables s
                      else StringValue s)
                   else Undefined)
              parsedPayload3 w))"

text \<open>The callback of the first \<open>replace\<close> of \<open>processValue\<close>, for the capture group
  \<open>varName\<close> of a match; the branches are in the order of the source. The \<open>email\<close> branch
  calls \<open>processValue("${username}", ...)\<close>: its first \<open>replace\<close> has the one match
  \<open>${username}\<close> and its second runs over the generated name.\<close>

definition resolveHelper ::
  "platform \<Rightarrow> Schema \<Rightarrow> vars \<Rightarrow> string \<Rightarrow> world \<Rightarrow> error + string \<times> world"
where
  "resolveHelper pf schema variables varName w =
     (if varName = ''domain'' then generateRandomDomain schema w
      else if varName = ''base64'' then generateBase64 (Some 32) w
      else if startsWith varName ''base64:'' then
        generateBase64 (num_or (parseInt_opt (nth_opt (split CHR '':'' varName) 1)) 32) w
      else if startsWith varName ''password:'' then
        generatePassword (num_or (parseInt_opt (nth_opt (split CHR '':'' varName) 1)) 16) w
      else if varName = ''password'' then generatePassword (Some 16) w
      else if startsWith varName ''hash:'' then
        generateHash (num_or (parseInt_opt (nth_opt (split CHR '':'' varName) 1)) 8) w
      else if varName = ''hash'' then generateHash (Some 8) w
      else if varName = ''uuid'' then Inr (randomUUID w)
      else if varName = ''timestamp'' \<or> varName = ''timestampms'' then
        (case date_now w of (t, w') \<Rightarrow> Inr (dec_nat t, w'))
      else if varName = ''timestamps'' then
        (case date_now w of (t, w') \<Rightarrow> Inr (dec_nat ((t + 500) div 1000), w'))
      else if startsWith varName ''timestampms:'' then
        Inr (num_toString (date_getTime pf (drop 12 varName)), w)
      else if startsWith varName ''timestamps:'' then
        Inr (num_toString (map_option (\<lambda>t. (t + 500) div 1000) (date_getTime pf (drop 11 varName))), w)
      else if varName = ''randomPort'' then
        (case random_below 65535 w of (p, w') \<Rightarrow> Inr (dec_nat p, w'))
      else if varName = ''jwt'' then generateJwt None Undefined None w
      else if startsWith varName ''jwt:'' then jwt_params pf variables varName w
      else if varName = ''username'' then Inr (generateUsername w)
      else if varName = ''email'' then
        (case generateUsername w of
           (u, w1) \<Rightarrow>
             (case random_below (length email_domains) w1 of
                (d, w2) \<Rightarrow>
                  Inr (toLowerCase (replace_vars variables u @ ''@'' @ (email_domains ! d)), w2)))
      else Inr (property_or (get_property variables varName) (''${'' @ varName @ ''}''), w))"

section \<open>processValue and processVariables\<close>

definition processValue ::
  "platform \<Rightarrow> Schema \<Rightarrow> vars \<Rightarrow> string \<Rightarrow> world \<Rightarrow> error + string \<times> world"
where
  "processValue pf schema variables v w =
     (if v = [] then Inr (v, w)
      else
        (case replace_each (resolveHelper pf schema variables) (pieces v) w of
           Inl e \<Rightarrow> Inl e
         | Inr (processedValue, w') \<Rightarrow> Inr (replace_vars variables processedValue, w')))"

text \<open>\<open>value.match(/\${base64:(\d+)}/)?.[1]\<close> and its siblings: the digits of the first
  place in \<open>value\<close> where the opening \<open>p\<close> is followed by digits and \<open>}\<close>. The search is
  not anchored at the start of the value.\<close>

fun match_length :: "string \<Rightarrow> string \<Rightarrow> string option" where
  "match_length p [] = None"
| "match_length p (c # cs) =
     (if prefix p (c # cs) then
        (let ds = takeWhile is_digit (drop (length p) (c # cs));
             after = dropWhile is_digit (drop (length p) (c # cs))
         in if ds \<noteq> [] \<and> prefix ''}'' after then Some ds else match_length p cs)
      else match_length p cs)"

text \<open>The value the first pass stores for a string value.\<close>

definition pass1_value :: "Schema \<Rightarrow> string \<Rightarrow> world \<Rightarrow> error + string \<times> world" where
  "pass1_value schema v w =
     (if v = ''${domain}'' then generateRandomDomain schema w
      else if startsWith v ''${base64:'' then
        generateBase64 (case match_length ''${base64:'' v of Some ds \<Rightarrow> parseInt ds | None \<Rightarrow> Some 32) w
      else if startsWith v ''${password:'' then
        generatePassword
          (case match_length ''${password:'' v of Some ds \<Rightarrow> parseInt ds | None \<Rightarrow> Some 16) w
      else if v = ''${hash}'' then generateHash (Some 8) w
      else if startsWith v ''${hash:'' then
        generateHash (case match_length ''${hash:'' v of Some ds \<Rightarrow> parseInt ds | None \<Rightarrow> Some 8) w
      else Inr (v, w))"

text \<open>The first loop of \<open>processVariables\<close> over \<open>Object.entries(variables)\<close>: a value
  that is not a string is skipped; \<open>processed[key] = ...\<close> is a write to the plain object
  \<open>processed\<close>.\<close>

fun firstPass :: "Schema \<Rightarrow> (string \<times> jsv) list \<Rightarrow> vars \<Rightarrow> world \<Rightarrow> error + vars \<times> world" where
  "firstPass schema [] processed w = Inr (processed, w)"
| "firstPass schema ((key, val) # rest) processed w =
     (case val of
        JStr v \<Rightarrow>
          (case pass1_value schema v w of
             Inl e \<Rightarrow> Inl e
           | Inr (v', w') \<Rightarrow> firstPass schema rest (set_property key v' processed) w')
      | _ \<Rightarrow> firstPass schema rest processed w)"

text \<open>The second loop runs over the entries as they were before it, and every
  \<open>processValue\<close> reads the map as the loop has updated it so far.\<close>

fun secondPass ::
  "platform \<Rightarrow> Schema \<Rightarrow> vars \<Rightarrow> vars \<Rightarrow> world \<Rightarrow> error + vars \<times> world"
where
  "secondPass pf schema [] processed w = Inr (processed, w)"
| "secondPass pf schema ((key, v) # rest) processed w =
     (case processValue pf schema processed v w of
        Inl e \<Rightarrow> Inl e
      | Inr (v', w') \<Rightarrow> secondPass pf schema rest (set_property key v' processed) w')"

definition processVariables ::
  "platform \<Rightarrow> Schema \<Rightarrow> (string \<times> jsv) list \<Rightarrow> world \<Rightarrow> error + vars \<times> world"
where
  "processVariables pf schema variables w =
     (case firstPass schema variables [] w of
        Inl e \<Rightarrow> Inl e
      | Inr (processed, w') \<Rightarrow> secondPass pf schema processed processed w')"

section \<open>The validators: shared parts\<close>

text \<open>Both validator classes keep two arrays, \<open>errors\<close> and \<open>warnings\<close>, that \<open>error(msg)\<close>
  and \<open>warning(msg)\<close> push to (the console output of \<open>log\<close> is not modelled). A
  \<open>ValidationResult\<close> is the two arrays with the flag \<open>valid\<close>.\<close>

record vstate =
  errors :: "string list"
  warnings :: "string list"

record ValidationResult = vstate +
  valid :: bool

definition fresh :: vstate where
  "fresh = \<lparr>errors = [], warnings = []\<rparr>"

definition error :: "string \<Rightarrow> vstate \<Rightarrow> vstate" where
  "error msg st = st\<lparr>errors := errors st @ [msg]\<rparr>"

definition warning :: "string \<Rightarrow> vstate \<Rightarrow> vstate" where
  "warning msg st = st\<lparr>warnings := warnings st @ [msg]\<rparr>"

definition result :: "bool \<Rightarrow> vstate \<Rightarrow> ValidationResult" where
  "result v st = \<lparr>errors = errors st, warnings = warnings st, valid = v\<rparr>"

text \<open>What a call of \<open>validate()\<close> ends in: \<open>process.exit(1)\<close>, an exception that leaves
  the method, or a returned report.\<close>

datatype outcome = Exited | Threw error | Report ValidationResult

text \<open>\<open>'${s}'\<close> in a message.\<close>

definition quoted :: "string \<Rightarrow> string" where
  "quoted s = [CHR 0x27] @ s @ [CHR 0x27]"

text \<open>\<open>String(x)\<close>, as a template literal converts a value.\<close>

fun js_String :: "jsv \<Rightarrow> string" where
  "js_String JNull = ''null''"
| "js_String (JBool b) = (if b then ''true'' else ''false'')"
| "js_String (JNum n) = num_toString (Some n)"
| "js_String (JStr s) = s"
| "js_String (JArr xs) = join '','' (map (\<lambda>x. if x = JNull then [] else js_String x) xs)"
| "js_String (JObj kvs) = ''[object Object]''"

text \<open>A file as the validators read it: absent, unreadable or unparsable (the exception's
  message), or parsed.\<close>

datatype 'a read_result = NotFound | Throws string | Parsed 'a

section \<open>The manifest (docker-compose.yml)\<close>

text \<open>Modelled from the spec: the type declarations \<open>ComposeSpecification\<close> and
  \<open>DefinitionsService\<close> of \<open>./type\<close> are not among the sources; the records follow the
  manifest shape of the specification (services with \<open>image\<close>, \<open>ports\<close>, \<open>container_name\<close>,
  \<open>networks\<close>, and top-level \<open>networks\<close>), restricted to what the validators read. A
  service's \<open>networks\<close> is a list of names or a map (its keys); a port entry is a string, a
  number or an object with \<open>published\<close> and \<open>target\<close>; a service may be \<open>null\<close> in YAML.
  The top-level \<open>networks\<close> is given by its keys. A YAML document that is not an object is
  \<open>None\<close>.\<close>

datatype service_networks = NetworksList "string list" | NetworksMap "string list"

datatype port_entry = PortString string | PortNumber int | PortObject "jsv option" "jsv option"

record DefinitionsService =
  container_name :: "string option"
  networks :: "service_networks option"
  ports :: "port_entry list option"
  image :: "string option"

record ComposeSpecification =
  services :: "(string \<times> DefinitionsService option) list option"
  top_networks :: "string list option"

type_synonym compose_file = "ComposeSpecification option read_result"

record DockerComposeValidatorOptions =
  composePath :: "string option"
  exitOnError :: bool

text \<open>\<open>parseCompose\<close>.\<close>

definition parseCompose ::
  "string \<Rightarrow> compose_file \<Rightarrow> vstate \<Rightarrow> ComposeSpecification option \<times> vstate"
where
  "parseCompose path f st =
     (case f of
        NotFound \<Rightarrow> (None, error (''docker-compose.yml not found at '' @ path) st)
      | Throws m \<Rightarrow> (None, error (''Failed to parse docker-compose.yml: '' @ m) st)
      | Parsed None \<Rightarrow> (None, error (''Invalid docker-compose.yml structure at '' @ path) st)
      | Parsed (Some compose) \<Rightarrow> (Some compose, st))"

text \<open>The four checks run in a \<open>forEach\<close> over \<open>Object.entries(services)\<close>. Reading a
  property of a \<open>null\<close> service throws a \<open>TypeError\<close>, which nothing catches.\<close>

fun validateNoContainerName ::
  "(string \<times> DefinitionsService option) list \<Rightarrow> vstate \<Rightarrow> error + vstate"
where
  "validateNoContainerName [] st = Inr st"
| "validateNoContainerName ((serviceName, None) # rest) st =
     Inl (TypeError ''Cannot read properties of null'')"
| "validateNoContainerName ((serviceName, Some service) # rest) st =
     validateNoContainerName rest
       (if (case container_name service of None \<Rightarrow> False | Some c \<Rightarrow> c \<noteq> [])
        then error (''Service '' @ quoted serviceName
                    @ '': Found 'container_name' field. According to README, container_name should not be used. Dokploy manages container names automatically.'') st
        else st)"

definition uses_dokploy_network :: string where
  "uses_dokploy_network =
     '': Uses 'dokploy-network'. Dokploy creates networks automatically, explicit networks are not needed.''"

definition uses_explicit_network :: string where
  "uses_explicit_network =
     '': Uses explicit network configuration. Dokploy creates networks automatically, explicit networks are not needed.''"

fun service_networks_loop ::
  "(string \<times> DefinitionsService option) list \<Rightarrow> vstate \<Rightarrow> error + vstate"
where
  "service_networks_loop [] st = Inr st"
| "service_networks_loop ((serviceName, None) # rest) st =
     Inl (TypeError ''Cannot read properties of null'')"
| "service_networks_loop ((serviceName, Some service) # rest) st =
     service_networks_loop rest
       (case networks service of
          None \<Rightarrow> st
        | Some (NetworksMap networkNames) \<Rightarrow>
            if ''dokploy-network'' \<in> set networkNames
            then error (''Service '' @ quoted serviceName @ uses_dokploy_network) st
            else if length networkNames > 0
            then error (''Service '' @ quoted serviceName @ uses_explicit_network) st
            else st
        | Some (NetworksList names) \<Rightarrow>
            if ''dokploy-network'' \<in> set names
            then error (''Service '' @ quoted serviceName @ uses_dokploy_network) st
            else if length names > 0
            then error (''Service '' @ quoted serviceName @ uses_explicit_network) st
            else st)"

definition validateNoExplicitNetworks ::
  "ComposeSpecification \<Rightarrow> (string \<times> DefinitionsService option) list \<Rightarrow> vstate \<Rightarrow> error + vstate"
where
  "validateNoExplicitNetworks compose svcs st =
     (let hasDokployNetwork =
            (case top_networks compose of None \<Rightarrow> False | Some ks \<Rightarrow> ''dokploy-network'' \<in> set ks)
      in case service_networks_loop svcs st of
           Inl e \<Rightarrow> Inl e
         | Inr st1 \<Rightarrow>
             (let st2 = (if hasDokployNetwork
                         then error ''Found 'dokploy-network' in networks section. Dokploy creates networks automatically, explicit networks are not needed.'' st1
                         else st1)
              in Inr (if (case top_networks compose of None \<Rightarrow> False | Some ks \<Rightarrow> length ks > 0)
                      then error ''Found explicit networks section. Dokploy creates networks automatically, explicit networks are not needed.'' st2
                      else st2)))"

text \<open>\<open>/^\d+:\d+/.test(port)\<close>.\<close>

definition port_mapping_format :: "string \<Rightarrow> bool" where
  "port_mapping_format port =
     (let ds = takeWhile is_digit port; after = dropWhile is_digit port
      in ds \<noteq> [] \<and> prefix '':'' after \<and> (case tl after of [] \<Rightarrow> False | c # cs \<Rightarrow> is_digit c))"

fun ports_loop :: "string \<Rightarrow> nat \<Rightarrow> port_entry list \<Rightarrow> vstate \<Rightarrow> vstate" where
  "ports_loop serviceName index [] st = st"
| "ports_loop serviceName index (port # rest) st =
     ports_loop serviceName (Suc index) rest
       (case port of
          PortString p \<Rightarrow>
            if port_mapping_format p
            then error (''Service '' @ quoted serviceName @ '': ports['' @ dec_nat index
                        @ ''] uses port mapping format '' @ quoted p
                        @ ''. According to README, use only port number (e.g., '3000') instead of '3000:3000'. Dokploy handles port routing.'') st
            else st
        | PortNumber n \<Rightarrow> st
        | PortObject published target \<Rightarrow>
            (case (published, target) of
               (Some pub, Some tgt) \<Rightarrow>
                 if truthy published \<and> truthy target
                 then error (''Service '' @ quoted serviceName @ '': ports['' @ dec_nat index
                             @ ''] uses port mapping (published: '' @ js_String pub
                             @ '', target: '' @ js_String tgt
                             @ ''). According to README, use only port number. Dokploy handles port routing.'') st
                 else st
             | _ \<Rightarrow> st))"

fun validatePortsFormat ::
  "(string \<times> DefinitionsService option) list \<Rightarrow> vstate \<Rightarrow> error + vstate"
where
  "validatePortsFormat [] st = Inr st"
| "validatePortsFormat ((serviceName, None) # rest) st =
     Inl (TypeError ''Cannot read properties of null'')"
| "validatePortsFormat ((serviceName, Some service) # rest) st =
     validatePortsFormat rest
       (case ports service of None \<Rightarrow> st | Some ps \<Rightarrow> ports_loop serviceName 0 ps st)"

definition validateServicesExist :: "ComposeSpecification \<Rightarrow> vstate \<Rightarrow> bool \<times> vstate" where
  "validateServicesExist compose st =
     (if (case services compose of None \<Rightarrow> True | Some svcs \<Rightarrow> length svcs = 0)
      then (False, error ''No services found in docker-compose.yml'' st)
      else (True, st))"

text \<open>\<open>serviceName.replace(/_/g, "-")\<close>.\<close>

definition underscores_to_hyphens :: "string \<Rightarrow> string" where
  "underscores_to_hyphens s = map (\<lambda>c. if c = CHR ''_'' then CHR ''-'' else c) s"

fun validateServiceNames :: "string list \<Rightarrow> vstate \<Rightarrow> vstate" where
  "validateServiceNames [] st = st"
| "validateServiceNames (serviceName # rest) st =
     validateServiceNames rest
       (let st1 = (if serviceName \<noteq> toLowerCase serviceName
                   then warning (''Service '' @ quoted serviceName
                                 @ '': Service names should be lowercase. Consider using ''
                                 @ quoted (toLowerCase serviceName) @ ''.'') st
                   else st)
        in if CHR ''_'' \<in> set serviceName
           then warning (''Service '' @ quoted serviceName
                         @ '': Service names should use hyphens instead of underscores. Consider using ''
                         @ quoted (underscores_to_hyphens serviceName) @ ''.'') st1
           else st1)"

text \<open>\<open>DockerComposeValidator.validate()\<close>, from the state of the instance. The file is
  read twice, as the source does.\<close>

definition dc_validate ::
  "DockerComposeValidatorOptions \<Rightarrow> compose_file \<Rightarrow> vstate \<Rightarrow> outcome"
where
  "dc_validate options f st =
     (case composePath options of
        None \<Rightarrow>
          if exitOnError options then Exited
          else Report (result False (error ''composePath option is required'' st))
      | Some path \<Rightarrow>
          if path = [] then
            (if exitOnError options then Exited
             else Report (result False (error ''composePath option is required'' st)))
          else
            (case parseCompose path f st of
               (None, st1) \<Rightarrow> if exitOnError options then Exited else Report (result False st1)
             | (Some c1, st1) \<Rightarrow>
                 (case parseCompose path f st1 of
                    (None, st2) \<Rightarrow> if exitOnError options then Exited else Report (result False st2)
                  | (Some compose, st2) \<Rightarrow>
                      (case validateServicesExist compose st2 of
                         (False, st3) \<Rightarrow>
                           if exitOnError options then Exited else Report (result False st3)
                       | (True, st3) \<Rightarrow>
                           (let svcs = (case services compose of None \<Rightarrow> [] | Some s \<Rightarrow> s) in
                            case validateNoContainerName svcs st3 of
                              Inl e \<Rightarrow> Threw e
                            | Inr st4 \<Rightarrow>
                                (case validateNoExplicitNetworks compose svcs st4 of
                                   Inl e \<Rightarrow> Threw e
                                 | Inr st5 \<Rightarrow>
                                     (case validatePortsFormat svcs st5 of
                                        Inl e \<Rightarrow> Threw e
                                      | Inr st6 \<Rightarrow>
                                          (let st7 = validateServiceNames (map fst svcs) st6;
                                               v = (length (errors st7) = 0)
                                           in if \<not> v \<and> exitOnError options then Exited
                                              else Report (result v st7)))))))))"

section \<open>The descriptor (template.toml)\<close>

text \<open>\<open>TemplateData\<close> as the TOML parser returns it. Fields are typed as the interfaces
  declare them; where the validator tests the run-time type of a field, the field is a
  \<open>jsv\<close> (or has a constructor for the other shapes), so that every branch of the test can
  be taken. An absent field is \<open>None\<close>; for the fields the validator tests only for
  truthiness (\<open>config\<close>, \<open>domains\<close>, \<open>mounts\<close>, \<open>variables\<close>) \<open>None\<close> stands for every falsy
  value. TOML numbers are integers here.\<close>

datatype port_value = PortNum int | PortStr string

record DomainConfig =
  serviceName :: "string option"
  port :: "port_value option"
  host :: "jsv option"
  path :: "string option"

record MountConfig =
  filePath :: "jsv option"
  content :: "jsv option"

datatype domains_field = DomainsNotArray | DomainsArray "DomainConfig list"

datatype mounts_field = MountsNotArray | MountsArray "MountConfig list"

datatype variables_field = VariablesNotObject | VariablesObject "(string \<times> jsv) list"

record TemplateConfig =
  domains :: "domains_field option"
  env :: "jsv option"
  mounts :: "mounts_field option"

record TemplateData =
  variables :: "variables_field option"
  config :: "TemplateConfig option"

record TemplateValidatorOptions =
  templateDir :: "string option"
  t_exitOnError :: bool

text \<open>The directory as \<open>validateTemplateDir\<close> finds it: the two paths it builds and what
  reading the two files gives.\<close>

record template_dir =
  composeFilePath :: string
  composeFile :: compose_file
  tomlFilePath :: string
  tomlFile :: "TemplateData read_result"

definition validHelpers :: "string list" where
  "validHelpers =
     [''domain'', ''base64'', ''password'', ''hash'', ''uuid'', ''timestamp'', ''timestampms'',
      ''timestamps'', ''randomPort'', ''jwt'', ''username'', ''email'']"

text \<open>\<open>validateHelper\<close>: only two kinds of expression draw a warning, a length parameter
  that is not a number and a date that does not parse. The \<open>jwt\<close> branch and the branch
  without a colon return without effect.\<close>

definition validateHelper :: "platform \<Rightarrow> string \<Rightarrow> string \<Rightarrow> vstate \<Rightarrow> vstate" where
  "validateHelper pf helper ctx st =
     (if CHR '':'' \<in> set helper then
        (case split CHR '':'' helper of
           [] \<Rightarrow> st
         | helperName # params \<Rightarrow>
             if helperName \<notin> set validHelpers then st
             else if helperName = ''base64'' \<or> helperName = ''password'' \<or> helperName = ''hash'' then
               (case nth_opt params 0 of
                  None \<Rightarrow> st
                | Some param \<Rightarrow>
                    if param \<noteq> [] \<and> parseInt param = None
                    then warning (ctx @ '': helper '' @ quoted helper
                                  @ '' has invalid parameter (should be a number)'') st
                    else st)
             else if helperName = ''timestampms'' \<or> helperName = ''timestamps'' then
               (let datetime = join '':'' params
                in if datetime \<noteq> [] \<and> date_getTime pf datetime = None
                   then warning (ctx @ '': helper '' @ quoted helper
                                 @ '' has invalid datetime format'') st
                   else st)
             else st)
      else st)"

text \<open>The capture groups of the matches of \<open>/\${([^}]+)}/g\<close> in a string, in order.\<close>

definition expressions :: "string \<Rightarrow> string list" where
  "expressions s = concat (map (\<lambda>p. case p of Expr b \<Rightarrow> [b] | Text c \<Rightarrow> []) (pieces s))"

definition validateHelpers :: "platform \<Rightarrow> string list \<Rightarrow> string \<Rightarrow> vstate \<Rightarrow> vstate" where
  "validateHelpers pf helpers ctx st = foldl (\<lambda>s h. validateHelper pf h ctx s) st helpers"

text \<open>\<open>parseComposeServices\<close>: the names of the services of the manifest.\<close>

definition parseComposeServices :: "string \<Rightarrow> compose_file \<Rightarrow> vstate \<Rightarrow> string list \<times> vstate" where
  "parseComposeServices ymlPath f st =
     (case f of
        NotFound \<Rightarrow> ([], warning (''docker-compose.yml not found at '' @ ymlPath) st)
      | Throws m \<Rightarrow>
          ([], error (''Failed to parse docker-compose.yml at '' @ ymlPath @ '': '' @ m) st)
      | Parsed None \<Rightarrow> ([], error (''Invalid docker-compose.yml structure at '' @ ymlPath) st)
      | Parsed (Some compose) \<Rightarrow>
          (let serviceNames = (case services compose of None \<Rightarrow> [] | Some svcs \<Rightarrow> map fst svcs)
           in (serviceNames,
               if length serviceNames = 0
               then warning (''No services found in docker-compose.yml at '' @ ymlPath) st
               else st)))"

text \<open>The number the port check compares: \<open>parseInt\<close> of a string port without its
  underscores, a number port as it is.\<close>

definition port_number :: "port_value \<Rightarrow> number" where
  "port_number p =
     (case p of PortStr s \<Rightarrow> parseInt (filter (\<lambda>c. c \<noteq> CHR ''_'') s) | PortNum n \<Rightarrow> Some n)"

definition port_text :: "port_value \<Rightarrow> string" where
  "port_text p = (case p of PortStr s \<Rightarrow> s | PortNum n \<Rightarrow> num_toString (Some n))"

definition service_not_found :: "nat \<Rightarrow> string \<Rightarrow> string list \<Rightarrow> string" where
  "service_not_found index name composeServices =
     ''domain['' @ dec_nat index @ '']: serviceName '' @ quoted name
     @ '' not found in docker-compose.yml services. Available services: ''
     @ join '', '' composeServices"

text \<open>The body of \<open>data.config.domains.forEach((domain, index) => ...)\<close>.\<close>

definition check_domain ::
  "platform \<Rightarrow> string list \<Rightarrow> nat \<Rightarrow> DomainConfig \<Rightarrow> vstate \<Rightarrow> vstate"
where
  "check_domain pf composeServices index d st =
     (let name_truthy = (case serviceName d of None \<Rightarrow> False | Some n \<Rightarrow> n \<noteq> []);
          st1 = (if \<not> name_truthy
                 then error (''domain['' @ dec_nat index @ '']: Missing required field 'serviceName''
                             @ [CHR 0x27]) st
                 else st);
          st2 = (if port d = None
                 then error (''domain['' @ dec_nat index @ '']: Missing required field 'port''
                             @ [CHR 0x27]) st1
                 else st1);
          st3 = (case serviceName d of
                   None \<Rightarrow> st2
                 | Some name \<Rightarrow>
                     if name \<noteq> [] \<and> length composeServices > 0 then
                       (if name \<notin> set composeServices
                        then error (service_not_found index name composeServices) st2
                        else st2)
                     else st2);
          st4 = (case port d of
                   None \<Rightarrow> st3
                 | Some p \<Rightarrow>
                     (case port_number p of
                        None \<Rightarrow>
                          warning (''domain['' @ dec_nat index @ '']: port '' @ quoted (port_text p)
                                   @ '' may be invalid (should be 1-65535)'') st3
                      | Some n \<Rightarrow>
                          if n < 1 \<or> n > 65535
                          then warning (''domain['' @ dec_nat index @ '']: port '' @ quoted (port_text p)
                                        @ '' may be invalid (should be 1-65535)'') st3
                          else st3))
      in case host d of
           Some (JStr h) \<Rightarrow>
             if h \<noteq> [] then
               (if \<not> includes_str h ''${''
                then warning (''domain['' @ dec_nat index @ '']: host '' @ quoted h
                              @ '' doesn't use variable syntax (e.g., ${main_domain} or ${domain})'') st4
                else validateHelpers pf (expressions h)
                       (''domain['' @ dec_nat index @ ''].host'') st4)
             else st4
         | _ \<Rightarrow> st4)"

fun check_domains ::
  "platform \<Rightarrow> string list \<Rightarrow> nat \<Rightarrow> DomainConfig list \<Rightarrow> vstate \<Rightarrow> vstate"
where
  "check_domains pf composeServices index [] st = st"
| "check_domains pf composeServices index (d # rest) st =
     check_domains pf composeServices (Suc index) rest (check_domain pf composeServices index d st)"

text \<open>\<open>Object.keys(x).length === 0\<close> for an object or an array.\<close>

definition no_keys :: "jsv \<Rightarrow> bool" where
  "no_keys x = (case x of JObj kvs \<Rightarrow> kvs = [] | JArr xs \<Rightarrow> xs = [] | _ \<Rightarrow> True)"

fun check_env_array :: "nat \<Rightarrow> jsv list \<Rightarrow> vstate \<Rightarrow> vstate" where
  "check_env_array index [] st = st"
| "check_env_array index (e # rest) st =
     check_env_array (Suc index) rest
       (case e of
          JStr s \<Rightarrow>
            if CHR ''='' \<notin> set s
            then warning (''config.env['' @ dec_nat index @ '']: '' @ quoted s
                          @ '' doesn't follow KEY=VALUE format'') st
            else st
        | JObj kvs \<Rightarrow>
            if no_keys e then warning (''config.env['' @ dec_nat index @ '']: empty object'') st else st
        | JArr xs \<Rightarrow>
            if no_keys e then warning (''config.env['' @ dec_nat index @ '']: empty object'') st else st
        | JBool b \<Rightarrow> st
        | JNum n \<Rightarrow> st
        | JNull \<Rightarrow>
            error (''config.env['' @ dec_nat index
                   @ '']: must be a string, object, boolean, or number'') st)"

definition check_env :: "jsv option \<Rightarrow> vstate \<Rightarrow> vstate" where
  "check_env e st =
     (case e of
        None \<Rightarrow> st
      | Some (JArr xs) \<Rightarrow> check_env_array 0 xs st
      | Some (JObj kvs) \<Rightarrow>
          if kvs = [] then warning ''config.env is an empty object'' st else st
      | Some _ \<Rightarrow>
          error ''config.env must be an array or an object (as per Dokploy's processEnvVars)'' st)"

fun check_mounts :: "nat \<Rightarrow> MountConfig list \<Rightarrow> vstate \<Rightarrow> vstate" where
  "check_mounts index [] st = st"
| "check_mounts index (mount # rest) st =
     check_mounts (Suc index) rest
       (let st1 = (if \<not> truthy (filePath mount)
                   then error (''config.mounts['' @ dec_nat index
                               @ '']: Missing required field 'filePath'' @ [CHR 0x27]) st
                   else if typeof (filePath mount) \<noteq> ''string''
                   then error (''config.mounts['' @ dec_nat index @ '']: filePath must be a string'') st
                   else st)
        in if content mount = None
           then error (''config.mounts['' @ dec_nat index
                       @ '']: Missing required field 'content'' @ [CHR 0x27]) st1
           else if typeof (content mount) \<noteq> ''string''
           then error (''config.mounts['' @ dec_nat index @ '']: content must be a string'') st1
           else st1)"

text \<open>The first loop over \<open>Object.entries(data.variables)\<close>.\<close>

fun check_variable_values :: "platform \<Rightarrow> (string \<times> jsv) list \<Rightarrow> vstate \<Rightarrow> vstate" where
  "check_variable_values pf [] st = st"
| "check_variable_values pf ((key, val) # rest) st =
     check_variable_values pf rest
       (case val of
          JStr v \<Rightarrow> validateHelpers pf (expressions v) (''variables.'' @ key) st
        | _ \<Rightarrow> error (''variables.'' @ key @ '': must be a string'') st)"

section \<open>The resolution test of the template validator\<close>

text \<open>The loop over the resolved variables: a warning for every remaining expression
  that has no colon and is not a truthy variable of the descriptor. \<open>data.variables\<close> is
  the table as the TOML parser returned it, read by its own properties.\<close>

fun warn_unresolved :: "(string \<times> jsv) list \<Rightarrow> string \<Rightarrow> string list \<Rightarrow> vstate \<Rightarrow> vstate" where
  "warn_unresolved raw key [] st = st"
| "warn_unresolved raw key (varName # rest) st =
     warn_unresolved raw key rest
       (if \<not> truthy (map_of raw varName) \<and> CHR '':'' \<notin> set varName
        then warning (''variables.'' @ key @ '': contains unresolved variable reference ''
                      @ quoted (''${'' @ varName @ ''}'')) st
        else st)"

fun check_resolved :: "(string \<times> jsv) list \<Rightarrow> vars \<Rightarrow> vstate \<Rightarrow> vstate" where
  "check_resolved raw [] st = st"
| "check_resolved raw ((key, v) # rest) st =
     check_resolved raw rest
       (if includes_str v ''${'' then warn_unresolved raw key (expressions v) st else st)"

text \<open>One \<open>try { processValue(...) } catch\<close>: a warning when the result still has
  \<open>${\<close>, another when \<open>processValue\<close> throws.\<close>

definition try_resolve ::
  "platform \<Rightarrow> vars \<Rightarrow> string \<Rightarrow> (string \<Rightarrow> string) \<Rightarrow> (string \<Rightarrow> string) \<Rightarrow> vstate \<Rightarrow> world
     \<Rightarrow> vstate \<times> world"
where
  "try_resolve pf processedVars v unresolved_msg thrown_msg st w =
     (case processValue pf \<lparr>domain = None\<rparr> processedVars v w of
        Inl e \<Rightarrow> (warning (thrown_msg (message e)) st, w)
      | Inr (processed, w') \<Rightarrow>
          (if includes_str processed ''${'' then warning (unresolved_msg processed) st else st, w'))"

fun resolve_hosts ::
  "platform \<Rightarrow> vars \<Rightarrow> nat \<Rightarrow> DomainConfig list \<Rightarrow> vstate \<Rightarrow> world \<Rightarrow> vstate \<times> world"
where
  "resolve_hosts pf pv index [] st w = (st, w)"
| "resolve_hosts pf pv index (d # rest) st w =
     (case (case host d of
              Some (JStr h) \<Rightarrow>
                if h \<noteq> [] then
                  try_resolve pf pv h
                    (\<lambda>r. ''domain['' @ dec_nat index
                          @ ''].host: could not fully resolve all variables. Result: '' @ r)
                    (\<lambda>m. ''domain['' @ dec_nat index @ ''].host: error processing host value: '' @ m)
                    st w
                else (st, w)
            | _ \<Rightarrow> (st, w)) of
        (st', w') \<Rightarrow> resolve_hosts pf pv (Suc index) rest st' w')"

fun resolve_env_array ::
  "platform \<Rightarrow> vars \<Rightarrow> nat \<Rightarrow> jsv list \<Rightarrow> vstate \<Rightarrow> world \<Rightarrow> vstate \<times> world"
where
  "resolve_env_array pf pv index [] st w = (st, w)"
| "resolve_env_array pf pv index (e # rest) st w =
     (case (case e of
              JStr s \<Rightarrow>
                try_resolve pf pv s
                  (\<lambda>r. ''config.env['' @ dec_nat index @ '']: could not fully resolve all variables'')
                  (\<lambda>m. ''config.env['' @ dec_nat index @ '']: error processing env value: '' @ m)
                  st w
            | _ \<Rightarrow> (st, w)) of
        (st', w') \<Rightarrow> resolve_env_array pf pv (Suc index) rest st' w')"

fun resolve_env_object ::
  "platform \<Rightarrow> vars \<Rightarrow> (string \<times> jsv) list \<Rightarrow> vstate \<Rightarrow> world \<Rightarrow> vstate \<times> world"
where
  "resolve_env_object pf pv [] st w = (st, w)"
| "resolve_env_object pf pv ((key, val) # rest) st w =
     (case (case val of
              JStr s \<Rightarrow>
                try_resolve pf pv s
                  (\<lambda>r. ''config.env.'' @ key @ '': could not fully resolve all variables'')
                  (\<lambda>m. ''config.env.'' @ key @ '': error processing env value: '' @ m)
                  st w
            | _ \<Rightarrow> (st, w)) of
        (st', w') \<Rightarrow> resolve_env_object pf pv rest st' w')"

definition resolve_env :: "platform \<Rightarrow> vars \<Rightarrow> jsv option \<Rightarrow> vstate \<Rightarrow> world \<Rightarrow> vstate \<times> world" where
  "resolve_env pf pv e st w =
     (case e of
        Some (JArr xs) \<Rightarrow> resolve_env_array pf pv 0 xs st w
      | Some (JObj kvs) \<Rightarrow> resolve_env_object pf pv kvs st w
      | _ \<Rightarrow> (st, w))"

fun resolve_mounts ::
  "platform \<Rightarrow> vars \<Rightarrow> nat \<Rightarrow> MountConfig list \<Rightarrow> vstate \<Rightarrow> world \<Rightarrow> vstate \<times> world"
where
  "resolve_mounts pf pv index [] st w = (st, w)"
| "resolve_mounts pf pv index (mount # rest) st w =
     (case (case filePath mount of
              Some (JStr p) \<Rightarrow>
                if p \<noteq> [] then
                  try_resolve pf pv p
                    (\<lambda>r. ''config.mounts['' @ dec_nat index
                          @ ''].filePath: could not fully resolve all variables'')
                    (\<lambda>m. ''config.mounts['' @ dec_nat index
                          @ ''].filePath: error processing filePath: '' @ m)
                    st w
                else (st, w)
            | _ \<Rightarrow> (st, w)) of
        (st1, w1) \<Rightarrow>
          (case (case content mount of
                   Some (JStr c) \<Rightarrow>
                     if c \<noteq> [] then
                       try_resolve pf pv c
                         (\<lambda>r. ''config.mounts['' @ dec_nat index
                               @ ''].content: could not fully resolve all variables'')
                         (\<lambda>m. ''config.mounts['' @ dec_nat index
                               @ ''].content: error processing content: '' @ m)
                         st1 w1
                     else (st1, w1)
                 | _ \<Rightarrow> (st1, w1)) of
             (st2, w2) \<Rightarrow> resolve_mounts pf pv (Suc index) rest st2 w2))"

text \<open>The \<open>try\<close> block after the variable checks. \<open>processVariables\<close> may throw, and so
  does \<open>data.config.mounts.forEach\<close> when \<open>mounts\<close> is not an array; the \<open>catch\<close> reports
  either as an error, after the warnings the block has pushed before.\<close>

definition resolution_test ::
  "platform \<Rightarrow> TemplateConfig \<Rightarrow> (string \<times> jsv) list \<Rightarrow> vstate \<Rightarrow> world \<Rightarrow> vstate"
where
  "resolution_test pf cfg raw st w =
     (case processVariables pf \<lparr>domain = None\<rparr> raw w of
        Inl e \<Rightarrow> error (''Failed to process variables: '' @ message e) st
      | Inr (processedVars, w1) \<Rightarrow>
          (let st1 = check_resolved raw processedVars st;
               sw2 = (case domains cfg of
                        Some (DomainsArray ds) \<Rightarrow> resolve_hosts pf processedVars 0 ds st1 w1
                      | _ \<Rightarrow> (st1, w1));
               sw3 = resolve_env pf processedVars (env cfg) (fst sw2) (snd sw2)
           in case mounts cfg of
                None \<Rightarrow> fst sw3
              | Some MountsNotArray \<Rightarrow>
                  error (''Failed to process variables: data.config.mounts.forEach is not a function'')
                    (fst sw3)
              | Some (MountsArray ms) \<Rightarrow>
                  fst (resolve_mounts pf processedVars 0 ms (fst sw3) (snd sw3))))"

section \<open>validateTemplate, validateTemplateDir and validate\<close>

definition validateTemplate ::
  "platform \<Rightarrow> string \<Rightarrow> TemplateData read_result \<Rightarrow> string list \<Rightarrow> vstate \<Rightarrow> world
     \<Rightarrow> bool \<times> vstate"
where
  "validateTemplate pf tomlPath f composeServices st w =
     (case f of
        NotFound \<Rightarrow> (False, error (''template.toml not found at '' @ tomlPath) st)
      | Throws m \<Rightarrow> (False, error (''Invalid TOML syntax in '' @ tomlPath @ '': '' @ m) st)
      | Parsed data \<Rightarrow>
          (case config data of
             None \<Rightarrow> (False, error ''Missing [config] section in template.toml'' st)
           | Some cfg \<Rightarrow>
               (case domains cfg of
                  Some DomainsNotArray \<Rightarrow> (False, error ''config.domains must be an array'' st)
                | dfield \<Rightarrow>
                    (let st1 = (case dfield of
                                  Some (DomainsArray ds) \<Rightarrow> check_domains pf composeServices 0 ds st
                                | _ \<Rightarrow> warning ''No domains configured in template.toml'' st);
                         st2 = check_env (env cfg) st1;
                         st3 = (case mounts cfg of
                                  None \<Rightarrow> st2
                                | Some MountsNotArray \<Rightarrow> error ''config.mounts must be an array'' st2
                                | Some (MountsArray ms) \<Rightarrow> check_mounts 0 ms st2);
                         st4 = (case variables data of
                                  None \<Rightarrow> st3
                                | Some VariablesNotObject \<Rightarrow> error ''variables must be an object'' st3
                                | Some (VariablesObject raw) \<Rightarrow>
                                    resolution_test pf cfg raw (check_variable_values pf raw st3) w)
                     in (length (errors st4) = 0, st4)))))"

definition validateTemplateDir ::
  "platform \<Rightarrow> template_dir \<Rightarrow> vstate \<Rightarrow> world \<Rightarrow> ValidationResult"
where
  "validateTemplateDir pf dir st w =
     (case parseComposeServices (composeFilePath dir) (composeFile dir) st of
        (composeServices, st1) \<Rightarrow>
          (case validateTemplate pf (tomlFilePath dir) (tomlFile dir) composeServices st1 w of
             (isValid, st2) \<Rightarrow> result (isValid \<and> length (errors st2) = 0) st2))"

text \<open>\<open>TemplateValidator.validate()\<close>; \<open>fs\<close> gives the directory for a path.\<close>

definition validate ::
  "platform \<Rightarrow> TemplateValidatorOptions \<Rightarrow> (string \<Rightarrow> template_dir) \<Rightarrow> vstate \<Rightarrow> world \<Rightarrow> outcome"
where
  "validate pf options fs st w =
     (if (case templateDir options of None \<Rightarrow> True | Some d \<Rightarrow> d = []) then
        (if t_exitOnError options then Exited
         else Report (result False (error ''templateDir option is required'' st)))
      else
        (let r = validateTemplateDir pf (fs (the (templateDir options))) st w
         in if \<not> valid r \<and> t_exitOnError options then Exited else Report r))"

section \<open>Vocabulary of the claims\<close>

text \<open>The expression bodies for which the callback of \<open>processValue\<close> takes a helper
  branch: the twelve names it compares with \<open>===\<close> and the six openings it tests with
  \<open>startsWith\<close>. Every other body reaches the last line, the variable lookup.\<close>

definition helper_names :: "string list" where
  "helper_names =
     [''domain'', ''base64'', ''password'', ''hash'', ''uuid'', ''timestamp'', ''timestampms'',
      ''timestamps'', ''randomPort'', ''jwt'', ''username'', ''email'']"

definition helper_openings :: "string list" where
  "helper_openings =
     [''base64:'', ''password:'', ''hash:'', ''timestampms:'', ''timestamps:'', ''jwt:'']"

definition is_helper_call :: "string \<Rightarrow> bool" where
  "is_helper_call varName =
     (varName \<in> set helper_names \<or> (\<exists>p \<in> set helper_openings. startsWith varName p))"


text \<open>The values on which the first pass of \<open>processVariables\<close> takes a generator branch.\<close>

definition pass1_generates :: "string \<Rightarrow> bool" where
  "pass1_generates v =
     (v = ''${domain}'' \<or> startsWith v ''${base64:'' \<or> startsWith v ''${password:'' \<or>
      v = ''${hash}'' \<or> startsWith v ''${hash:'')"


text \<open>A value without any match of \<open>/\${([^}]+)}/\<close>.\<close>

definition has_expression :: "string \<Rightarrow> bool" where
  "has_expression v = (\<exists>p \<in> set (pieces v). case p of Expr b \<Rightarrow> True | Text c \<Rightarrow> False)"

text \<open>What a test of \<open>variables[x]\<close> for truthiness (\<open>variables[x] || ...\<close>,
  \<open>... && variables[x]\<close>) can tell of a map: an own empty string counts like \<open>undefined\<close>.\<close>

definition visible :: "vars \<Rightarrow> string \<Rightarrow> property" where
  "visible m x =
     (case get_property m x of StringValue v \<Rightarrow> if v \<noteq> [] then StringValue v else Undefined | p \<Rightarrow> p)"

text \<open>A value that passes the test \<open>typeof value === "string"\<close>.\<close>

definition string_valued :: "jsv \<Rightarrow> bool" where
  "string_valued v = (typeof (Some v) = ''string'')"

text \<open>A value on which neither pass of \<open>processVariables\<close> acts.\<close>

definition settled :: "string \<Rightarrow> bool" where
  "settled s = (\<not> has_expression s \<and> \<not> pass1_generates s)"

text \<open>Vocabulary for the errors of the template validator: an error that reports a
  missing service for the domain entry \<open>index\<close>; the errors the body of the domain loop
  pushes for one entry; and the relation of a state to a later one that has only pushed
  errors which do not start like a domain error.\<close>

definition reports_missing_service :: "nat \<Rightarrow> string \<Rightarrow> bool" where
  "reports_missing_service index e =
     prefix (''domain['' @ dec_nat index @ '']: serviceName '' @ [CHR 0x27]) e"

definition domain_errors :: "string list \<Rightarrow> nat \<Rightarrow> DomainConfig \<Rightarrow> string list" where
  "domain_errors composeServices index d =
     (if (case serviceName d of None \<Rightarrow> False | Some n \<Rightarrow> n \<noteq> []) then []
      else [''domain['' @ dec_nat index @ '']: Missing required field 'serviceName'' @ [CHR 0x27]])
     @ (if port d = None
        then [''domain['' @ dec_nat index @ '']: Missing required field 'port'' @ [CHR 0x27]]
        else [])
     @ (case serviceName d of
          None \<Rightarrow> []
        | Some name \<Rightarrow>
            if name \<noteq> [] \<and> composeServices \<noteq> [] \<and> name \<notin> set composeServices
            then [service_not_found index name composeServices] else [])"

definition not_domain_error :: "string \<Rightarrow> bool" where
  "not_domain_error e = (\<not> prefix ''d'' e)"

definition extends_errors :: "vstate \<Rightarrow> vstate \<Rightarrow> bool" where
  "extends_errors st st' = (\<exists>es. errors st' = errors st @ es \<and> list_all not_domain_error es)"

section \<open>Concrete inputs\<close>

text \<open>A platform whose date and JSON parsers reject every text, a schema without a domain
  override, and the world that answers \<open>0, 1, 2, ...\<close>; the closed theorems below evaluate
  the model at them. \<open>returned\<close> forgets the rest of the world.\<close>

definition example_platform :: platform where
  "example_platform = \<lparr>date_getTime = (\<lambda>s. None), json_parse = (\<lambda>s. None)\<rparr>"

definition example_schema :: Schema where
  "example_schema = \<lparr>domain = None\<rparr>"

definition example_world :: world where
  "example_world = (\<lambda>i. i)"

definition returned :: "error + 'a \<times> world \<Rightarrow> error + 'a" where
  "returned r = (case r of Inl e \<Rightarrow> Inl e | Inr (x, w) \<Rightarrow> Inr x)"

text \<open>The text \<open>{"a":1}\<close>, and a platform whose \<open>JSON.parse\<close> reads it.\<close>

definition payload_text :: string where
  "payload_text = [CHR ''{'', CHR 0x22, CHR ''a'', CHR 0x22, CHR '':'', CHR ''1'', CHR ''}'']"

definition parsing_platform :: platform where
  "parsing_platform =
     \<lparr>date_getTime = (\<lambda>s. None),
      json_parse = (\<lambda>s. if s = payload_text then Some (JObj [(''a'', JNum 1)]) else None)\<rparr>"

text \<open>The end-to-end scenario of the specification: a manifest with the one service
  \<open>web\<close>, and a descriptor with the variable \<open>main_domain = "${domain}"\<close>, one domain for
  the service \<open>name\<close> on port 3000 with the given host, the environment \<open>PORT=3000\<close> and no
  mounts.\<close>

definition web_service :: DefinitionsService where
  "web_service = \<lparr>container_name = None, networks = None, ports = None, image = Some ''x''\<rparr>"

definition manifest :: "(string \<times> DefinitionsService option) list \<Rightarrow> compose_file" where
  "manifest svcs = Parsed (Some \<lparr>services = Some svcs, top_networks = None\<rparr>)"

definition descriptor :: "string \<Rightarrow> string \<Rightarrow> TemplateData" where
  "descriptor name h =
     \<lparr>variables = Some (VariablesObject [(''main_domain'', JStr ''${domain}'')]),
      config = Some
        \<lparr>domains = Some (DomainsArray
           [\<lparr>serviceName = Some name, port = Some (PortNum 3000), host = Some (JStr h), path = None\<rparr>]),
         env = Some (JArr [JStr ''PORT=3000'']),
         mounts = Some (MountsArray [])\<rparr>\<rparr>"

definition blueprint :: "(string \<times> DefinitionsService option) list \<Rightarrow> string \<Rightarrow> string \<Rightarrow> template_dir" where
  "blueprint svcs name h =
     \<lparr>composeFilePath = ''bp/docker-compose.yml'', composeFile = manifest svcs,
      tomlFilePath = ''bp/template.toml'', tomlFile = Parsed (descriptor name h)\<rparr>"

section \<open>Facts about strings, numbers and the generators\<close>

lemma password_loop_length:
  "length (fst (password_loop k acc w)) = length acc + k"
  by (induction k arbitrary: acc w) (auto split: prod.splits)



lemma split_not_Nil: "split c s \<noteq> []"
  by (induction s) (auto split: list.splits)


lemma split_append_sep:
  "c \<notin> set p \<Longrightarrow> split c (p @ c # rest) = p # split c rest"
  by (induction p) (auto split: list.splits)





lemma generatePassword_length:
  assumes "n \<le> max_string_length"
  shows "\<exists>out w'. generatePassword (Some n) w = Inr (out, w') \<and> length out = nat n"
proof -
  obtain out w' where p: "password_loop (nat n) [] w = (out, w')"
    by (cases "password_loop (nat n) [] w")
  with password_loop_length[of "nat n" "[]" w] have "length out = nat n" by simp
  with p assms show ?thesis by (simp add: generatePassword_def)
qed

lemma generatePassword_too_long:
  "max_string_length < n \<Longrightarrow>
   generatePassword (Some n) w = Inl (RangeError ''Invalid string length'')"
  by (simp add: generatePassword_def)

lemma digit_char_val: "k < 10 \<Longrightarrow> digit_val (digit_char k) = k"
proof -
  assume "k < 10"
  then have "k \<in> {0,1,2,3,4,5,6,7,8,9}" by auto
  then show ?thesis by (auto simp: digit_val_def digit_char_def)
qed

lemma digit_char_is_digit: "k < 10 \<Longrightarrow> is_digit (digit_char k)"
  unfolding is_digit_def digit_char_def by (rule nth_mem) simp

lemma digits_val_snoc: "digits_val (ds @ [d]) = 10 * digits_val ds + digit_val d"
  by (simp add: digits_val_def)

lemma dec_nat_digits: "list_all is_digit (dec_nat n)"
  by (induction n rule: dec_nat.induct) (subst dec_nat.simps, simp add: digit_char_is_digit)


lemma digits_val_dec_nat: "digits_val (dec_nat n) = n"
proof (induction n rule: dec_nat.induct)
  case (1 n)
  show ?case
  proof (cases "n < 10")
    case True
    then show ?thesis by (subst dec_nat.simps) (simp add: digits_val_def digit_char_val)
  next
    case False
    then show ?thesis using 1
      by (subst dec_nat.simps) (simp add: digits_val_snoc digit_char_val)
  qed
qed



section \<open>Facts about the scan and the dispatch of the callback\<close>

lemma lookup_dispatch:
  "\<not> is_helper_call varName \<Longrightarrow>
   resolveHelper pf schema vs varName w =
     Inr (property_or (get_property vs varName) (''${'' @ varName @ ''}''), w)"
  by (simp add: is_helper_call_def helper_names_def helper_openings_def resolveHelper_def)

lemma own_lookup:
  "name \<notin> set prototype_names \<Longrightarrow>
   property_or (get_property vs name) other = str_or (map_of vs name) other"
  by (auto simp: property_or_def get_property_def prototype_names_def split: option.splits)


lemma empty_lookup:
  "map_of vs name = Some [] \<Longrightarrow> property_or (get_property vs name) other = other"
  by (simp add: property_or_def get_property_def str_or_def)


lemma takeWhile_upto: "c \<notin> set t \<Longrightarrow> takeWhile (\<lambda>x. x \<noteq> c) (t @ c # zs) = t"
  by (induction t) auto

lemma dropWhile_upto: "c \<notin> set t \<Longrightarrow> dropWhile (\<lambda>x. x \<noteq> c) (t @ c # zs) = c # zs"
  by (induction t) auto



lemma match_at_single:
  "body \<noteq> [] \<Longrightarrow> CHR ''}'' \<notin> set body \<Longrightarrow> match_at (''${'' @ body @ ''}'' @ rest) = Some (body, rest)"
  by (simp add: match_at_def startsWith_def Let_def takeWhile_upto dropWhile_upto)

lemma pieces_single:
  "body \<noteq> [] \<Longrightarrow> CHR ''}'' \<notin> set body \<Longrightarrow> pieces (''${'' @ body @ ''}'') = [Expr body]"
  using match_at_single[of body "[]"] by simp

section \<open>Lookups see only truthy values\<close>

lemma property_or_visible:
  "property_or (get_property m x) d = property_or (visible m x) d"
  by (simp add: visible_def property_or_def str_or_def split: property.splits)

lemma truthy_visible:
  "(if truthy_property (get_property m x) then get_property m x else d)
     = (if truthy_property (visible m x) then visible m x else d)"
  by (simp add: visible_def truthy_property_def split: property.splits)

lemma replace_vars_cong:
  assumes "visible m1 = visible m2"
  shows "replace_vars m1 s = replace_vars m2 s"
proof -
  have "property_or (get_property m1 x) d = property_or (get_property m2 x) d" for x d
    by (simp add: property_or_visible assms)
  then show ?thesis by (simp add: replace_vars_def cong: piece.case_cong)
qed

lemma jwt_params_cong:
  assumes "visible m1 = visible m2"
  shows "jwt_params pf m1 v w = jwt_params pf m2 v w"
proof -
  have t: "(if truthy_property (get_property m1 x) then get_property m1 x else d)
         = (if truthy_property (get_property m2 x) then get_property m2 x else d)" for x d
    by (simp only: truthy_visible assms)
  show ?thesis
    unfolding jwt_params_def Let_def t by (rule refl)
qed

lemma resolveHelper_cong:
  assumes "visible m1 = visible m2"
  shows "resolveHelper pf schema m1 v w = resolveHelper pf schema m2 v w"
proof -
  have "property_or (get_property m1 x) d = property_or (get_property m2 x) d" for x d
    by (simp add: property_or_visible assms)
  then show ?thesis
    by (simp add: resolveHelper_def jwt_params_cong[OF assms] replace_vars_cong[OF assms])
qed

lemma processValue_cong:
  assumes "visible m1 = visible m2"
  shows "processValue pf schema m1 t w = processValue pf schema m2 t w"
proof -
  have h1: "resolveHelper pf schema m1 = resolveHelper pf schema m2"
    using resolveHelper_cong[OF assms] by (intro ext)
  have h2: "replace_vars m1 = replace_vars m2"
    using replace_vars_cong[OF assms] by (intro ext)
  show ?thesis unfolding processValue_def h1 h2 by (rule refl)
qed

lemma visible_delete:
  assumes "map_of m k = Some []" and "k \<notin> set prototype_names"
  shows "visible (AList.delete k m) = visible m"
proof
  fix x
  show "visible (AList.delete k m) x = visible m x"
  proof (cases "x = k")
    case True
    with assms show ?thesis
      by (simp add: visible_def get_property_def delete_conv' prototype_names_def)
  next
    case False
    then show ?thesis by (simp add: visible_def get_property_def delete_conv')
  qed
qed

section \<open>The keys of the two passes\<close>

lemma string_valued_iff: "string_valued v \<longleftrightarrow> (\<exists>s. v = JStr s)"
  by (cases v) (auto simp: string_valued_def typeof_def)

lemma map_of_None_iff: "map_of al k = None \<longleftrightarrow> k \<notin> fst ` set al"
  by (simp add: map_of_eq_None_iff)

lemma set_property_stored:
  "key \<noteq> ''__proto__'' \<or> key \<in> fst ` set obj \<Longrightarrow> set_property key v obj = AList.update key v obj"
  by (auto simp: set_property_def map_of_None_iff)

lemma set_property_dropped:
  "''__proto__'' \<notin> fst ` set obj \<Longrightarrow> set_property ''__proto__'' v obj = obj"
  by (simp add: set_property_def map_of_None_iff)

lemma set_property_keys:
  "''__proto__'' \<notin> fst ` set obj \<Longrightarrow>
   fst ` set (set_property key v obj) = fst ` set obj \<union> (if key = ''__proto__'' then {} else {key})"
  by (cases "key = ''__proto__''") (simp_all add: set_property_dropped set_property_stored dom_update)

lemma firstPass_keys_set:
  "firstPass schema m processed w = Inr (out, w') \<Longrightarrow> ''__proto__'' \<notin> fst ` set processed \<Longrightarrow>
   fst ` set out = fst ` set processed \<union> {k. k \<noteq> ''__proto__'' \<and> (\<exists>s. (k, JStr s) \<in> set m)}"
proof (induction m arbitrary: processed w)
  case Nil
  then show ?case by simp
next
  case (Cons e m)
  obtain key val where e: "e = (key, val)" by (cases e)
  show ?case
  proof (cases val)
    case (JStr v)
    with Cons.prems e obtain v' w1 where
      p: "pass1_value schema v w = Inr (v', w1)"
      and r: "firstPass schema m (set_property key v' processed) w1 = Inr (out, w')"
      by (auto split: sum.splits)
    have k: "fst ` set (set_property key v' processed)
               = fst ` set processed \<union> (if key = ''__proto__'' then {} else {key})"
      using Cons.prems(2) by (rule set_property_keys)
    then have n: "''__proto__'' \<notin> fst ` set (set_property key v' processed)"
      using Cons.prems(2) by (auto split: if_splits)
    from Cons.IH[OF r n] k show ?thesis using e JStr by (auto split: if_splits)
  qed (use Cons e in \<open>auto\<close>)
qed

lemma firstPass_keys_list:
  "firstPass schema m processed w = Inr (out, w') \<Longrightarrow> distinct (map fst m) \<Longrightarrow>
   fst ` set processed \<inter> fst ` set m = {} \<Longrightarrow> ''__proto__'' \<notin> fst ` set processed \<Longrightarrow>
   map fst out = map fst processed
      @ map fst (filter (\<lambda>kv. string_valued (snd kv) \<and> fst kv \<noteq> ''__proto__'') m)"
proof (induction m arbitrary: processed w)
  case Nil
  then show ?case by simp
next
  case (Cons e m)
  obtain key val where e: "e = (key, val)" by (cases e)
  have d: "distinct (map fst m)" using Cons.prems(2) by simp
  show ?case
  proof (cases "\<exists>v. val = JStr v")
    case True
    then obtain v where v: "val = JStr v" by (elim exE)
    with Cons.prems e obtain v' w1 where
      p: "pass1_value schema v w = Inr (v', w1)"
      and r: "firstPass schema m (set_property key v' processed) w1 = Inr (out, w')"
      by (auto split: sum.splits)
    have k: "key \<notin> fst ` set processed" using Cons.prems(3) e by auto
    have ks: "fst ` set (set_property key v' processed)
               = fst ` set processed \<union> (if key = ''__proto__'' then {} else {key})"
      using Cons.prems(4) by (rule set_property_keys)
    have i: "fst ` set (set_property key v' processed) \<inter> fst ` set m = {}"
      using Cons.prems(2,3) e ks by (auto split: if_splits)
    have n: "''__proto__'' \<notin> fst ` set (set_property key v' processed)"
      using Cons.prems(4) ks by (auto split: if_splits)
    show ?thesis
    proof (cases "key = ''__proto__''")
      case True
      then have "set_property key v' processed = processed"
        using Cons.prems(4) by (simp add: set_property_dropped)
      with Cons.IH[OF r d i n] True show ?thesis using e v by simp
    next
      case False
      then have "set_property key v' processed = AList.update key v' processed"
        by (simp add: set_property_stored)
      with Cons.IH[OF r d i n] False k show ?thesis using e v
        by (simp add: update_keys string_valued_iff)
    qed
  next
    case False
    with Cons.prems e have r: "firstPass schema m processed w = Inr (out, w')"
      by (cases val) auto
    have i: "fst ` set processed \<inter> fst ` set m = {}" using Cons.prems(3) by auto
    from Cons.IH[OF r d i Cons.prems(4)] False show ?thesis using e
      by (simp add: string_valued_iff)
  qed
qed

lemma secondPass_keys:
  "secondPass pf schema es processed w = Inr (out, w') \<Longrightarrow>
   fst ` set es \<subseteq> fst ` set processed \<Longrightarrow> map fst out = map fst processed"
proof (induction es arbitrary: processed w)
  case Nil
  then show ?case by simp
next
  case (Cons e es)
  obtain key v where e: "e = (key, v)" by (cases e)
  with Cons.prems obtain v' w1 where
    r: "secondPass pf schema es (set_property key v' processed) w1 = Inr (out, w')"
    by (auto split: sum.splits)
  have u: "set_property key v' processed = AList.update key v' processed"
    using Cons.prems(2) e by (simp add: set_property_stored)
  have "fst ` set es \<subseteq> fst ` set (AList.update key v' processed)"
    using Cons.prems(2) by (auto simp: dom_update)
  from Cons.IH[OF r[unfolded u] this] show ?case using Cons.prems(2) e by (simp add: update_keys)
qed

section \<open>The values of the first pass\<close>














section \<open>Values without expressions\<close>

lemma no_expression_Cons:
  "(\<not> has_expression (c # cs)) = (match_at (c # cs) = None \<and> \<not> has_expression cs)"
proof (cases "match_at (c # cs)")
  case None
  then show ?thesis by (simp add: has_expression_def)
next
  case (Some a)
  then show ?thesis by (cases a) (simp add: has_expression_def)
qed

lemma has_expression_Nil [simp]: "\<not> has_expression []"
  by (simp add: has_expression_def)

lemma plain_pieces: "\<not> has_expression s \<Longrightarrow> pieces s = map Text s"
proof (induction s)
  case Nil
  then show ?case by simp
next
  case (Cons c cs)
  then show ?case by (simp add: no_expression_Cons)
qed

lemma replace_each_Text: "replace_each f (map Text s) w = Inr (s, w)"
  by (induction s) auto

lemma processValue_plain:
  "\<not> has_expression v \<Longrightarrow> processValue pf schema vs v w = Inr (v, w)"
proof -
  assume a: "\<not> has_expression v"
  have "concat (map (\<lambda>p. case p of Text c \<Rightarrow> [c] | Expr b \<Rightarrow> g b) (map Text s)) = s" for g and s :: string
    by (induction s) auto
  then have "replace_vars vs v = v"
    by (simp add: replace_vars_def plain_pieces[OF a])
  then show ?thesis
    by (simp add: processValue_def plain_pieces[OF a] replace_each_Text)
qed

lemma match_at_brace: "match_at s = Some r \<Longrightarrow> CHR ''{'' \<in> set s"
  by (auto simp: match_at_def startsWith_def prefix_def split: if_splits)

lemma no_brace_no_expression: "CHR ''{'' \<notin> set s \<Longrightarrow> \<not> has_expression s"
proof (induction s)
  case Nil
  then show ?case by simp
next
  case (Cons c cs)
  then have "match_at (c # cs) = None"
    using match_at_brace[of "c # cs"] by (cases "match_at (c # cs)") auto
  with Cons show ?case by (simp add: no_expression_Cons)
qed

lemma no_brace_settled: "CHR ''{'' \<notin> set s \<Longrightarrow> settled s"
  by (auto simp: settled_def no_brace_no_expression pass1_generates_def startsWith_def prefix_def)

lemma match_at_opening:
  assumes "prefix (''${'' @ q) s" "q \<noteq> []" "CHR ''}'' \<notin> set q" "\<forall>c. is_digit c \<longrightarrow> c \<noteq> CHR ''}''"
    and "prefix ''}'' (dropWhile is_digit (drop (length (''${'' @ q)) s))"
  shows "match_at s \<noteq> None"
proof -
  from assms(1) obtain t where s: "s = ''${'' @ q @ t" by (auto simp: prefix_def)
  define ds where "ds = takeWhile is_digit t"
  from assms(5) s obtain r where r: "dropWhile is_digit t = CHR ''}'' # r"
    by (auto simp: prefix_def)
  have t: "t = ds @ CHR ''}'' # r"
    using takeWhile_dropWhile_id[of is_digit t] r by (simp add: ds_def)
  have nd: "CHR ''}'' \<notin> set ds"
    using assms(4) set_takeWhileD[of _ is_digit t] by (auto simp: ds_def)
  have nq: "CHR ''}'' \<notin> set (q @ ds)" using assms(3) nd by simp
  have d2: "drop 2 s = (q @ ds) @ CHR ''}'' # r" using s t by simp
  have "takeWhile (\<lambda>c. c \<noteq> CHR ''}'') (drop 2 s) = q @ ds"
    unfolding d2 using nq by (rule takeWhile_upto)
  moreover have "dropWhile (\<lambda>c. c \<noteq> CHR ''}'') (drop 2 s) = CHR ''}'' # r"
    unfolding d2 using nq by (rule dropWhile_upto)
  ultimately show ?thesis
    using s assms(2) by (simp add: match_at_def startsWith_def Let_def)
qed

lemma match_length_None:
  assumes "\<not> has_expression s" "q \<noteq> []" "CHR ''}'' \<notin> set q"
  shows "match_length (''${'' @ q) s = None"
  using assms(1)
proof (induction s)
  case Nil
  then show ?case by simp
next
  case (Cons c cs)
  then have m: "match_at (c # cs) = None" and h: "\<not> has_expression cs"
    by (simp_all add: no_expression_Cons)
  have dg: "\<forall>c. is_digit c \<longrightarrow> c \<noteq> CHR ''}''" by (auto simp: is_digit_def)
  have "\<not> (prefix (''${'' @ q) (c # cs) \<and>
           prefix ''}'' (dropWhile is_digit (drop (length (''${'' @ q)) (c # cs))))"
    using match_at_opening[OF _ assms(2,3) dg, of "c # cs"] m by blast
  then show ?case using Cons.IH[OF h] by (auto simp: Let_def)
qed

lemma randomBytes_bytes:
  "randomBytes n w = Inr (bs, w') \<Longrightarrow> \<forall>b \<in> set bs. b < 256"
  by (auto simp: randomBytes_def split: option.splits if_splits)

lemma base64_chars:
  "length al = 64 \<Longrightarrow> \<forall>b \<in> set bs. b < 256 \<Longrightarrow>
   set (base64 al pad bs) \<subseteq> set al \<union> {CHR ''=''}"
proof (induction al pad bs rule: base64.induct)
  case (1 al pad a b c rest)
  then have "a div 4 < 64" "(a mod 4) * 16 + b div 16 < 64" "(b mod 16) * 4 + c div 64 < 64" "c mod 64 < 64"
    by auto
  with 1 show ?case by (auto simp del: nth_mem intro!: nth_mem)
next
  case (2 al pad a b)
  then have "a div 4 < 64" "(a mod 4) * 16 + b div 16 < 64" "(b mod 16) * 4 < 64"
    by auto
  with 2 show ?case by (auto simp del: nth_mem intro!: nth_mem)
next
  case (3 al pad a)
  then have "a div 4 < 64" "(a mod 4) * 16 < 64"
    by auto
  with 3 show ?case by (auto simp del: nth_mem intro!: nth_mem)
next
  case (4 al pad)
  then show ?case by simp
qed

lemma toBase64_no_brace: "\<forall>b \<in> set bs. b < 256 \<Longrightarrow> CHR ''{'' \<notin> set (toBase64 bs)"
proof -
  assume a: "\<forall>b \<in> set bs. b < 256"
  have l: "length b64_std = 64" by (simp add: b64_std_def)
  have n: "CHR ''{'' \<notin> set b64_std \<union> {CHR ''=''}" by (simp add: b64_std_def)
  from base64_chars[OF l a, of True] n show ?thesis unfolding toBase64_def by blast
qed

lemma hex_digit_mem: "d < 16 \<Longrightarrow> hex_digit d \<in> set ''0123456789abcdef''"
  unfolding hex_digit_def by (rule nth_mem) simp

lemma toHex_no_brace: "\<forall>b \<in> set bs. b < 256 \<Longrightarrow> CHR ''{'' \<notin> set (toHex bs)"
proof -
  assume a: "\<forall>b \<in> set bs. b < 256"
  have "set (toHex bs) \<subseteq> set ''0123456789abcdef''"
  proof
    fix c assume "c \<in> set (toHex bs)"
    then obtain b where b: "b \<in> set bs" "c = hex_digit (b div 16) \<or> c = hex_digit (b mod 16)"
      by (auto simp: toHex_def)
    with a have "b div 16 < 16" "b mod 16 < 16" by auto
    with b(2) show "c \<in> set ''0123456789abcdef''" using hex_digit_mem by blast
  qed
  moreover have "CHR ''{'' \<notin> set ''0123456789abcdef''" by simp
  ultimately show ?thesis by blast
qed

lemma password_loop_chars:
  "set (fst (password_loop k acc w)) \<subseteq> set acc \<union> set charset"
proof (induction k arbitrary: acc w)
  case 0
  then show ?case by simp
next
  case (Suc k)
  have "charset ! (w 0 mod length charset) \<in> set charset"
    by (rule nth_mem) (simp add: charset_def)
  with Suc[of "acc @ [charset ! (w 0 mod length charset)]" "\<lambda>i. w (Suc i)"]
  show ?case by (auto simp: random_below_def)
qed

lemma generatePassword_no_brace:
  "generatePassword n w = Inr (x, w') \<Longrightarrow> CHR ''{'' \<notin> set x"
proof -
  assume g: "generatePassword n w = Inr (x, w')"
  have c: "CHR ''{'' \<notin> set charset" by (simp add: charset_def)
  have "x = [] \<or> (\<exists>k. x = fst (password_loop k [] w))"
  proof (cases n)
    case None
    with g show ?thesis by (simp add: generatePassword_def)
  next
    case (Some i)
    with g have "password_loop (nat i) [] w = (x, w')"
      by (simp add: generatePassword_def split: if_splits)
    then have "x = fst (password_loop (nat i) [] w)" by simp
    then show ?thesis by (intro disjI2 exI)
  qed
  then show ?thesis
  proof
    assume "x = []"
    then show ?thesis by simp
  next
    assume "\<exists>k. x = fst (password_loop k [] w)"
    then obtain k where "x = fst (password_loop k [] w)" by (elim exE)
    with password_loop_chars[of k "[]" w] c show ?thesis by auto
  qed
qed

lemma generateBase64_32: "\<exists>x w'. generateBase64 (Some 32) w = Inr (x, w') \<and> settled x"
proof -
  obtain bs w' where r: "randomBytes (Some 32) w = Inr (bs, w')" and l: "length bs = 32"
    by (simp add: randomBytes_def)
  from l have t: "toString_base64 bs = Inr (toBase64 bs)"
    by (simp add: toString_base64_def max_string_length_def)
  have "settled (toBase64 bs)"
    using randomBytes_bytes[OF r] by (intro no_brace_settled toBase64_no_brace)
  with r t show ?thesis by (simp add: generateBase64_def)
qed

lemma generateHash_8: "\<exists>x w'. generateHash (Some 8) w = Inr (x, w') \<and> settled x"
proof -
  obtain bs w' where r: "randomBytes (Some 8) w = Inr (bs, w')" and l: "length bs = 8"
    by (simp add: randomBytes_def)
  from l have t: "toString_hex bs = Inr (toHex bs)"
    by (simp add: toString_hex_def max_string_length_def)
  have "settled (toHex bs)"
    using randomBytes_bytes[OF r] by (intro no_brace_settled toHex_no_brace)
  with r t show ?thesis by (simp add: generateHash_def)
qed

lemma generatePassword_16: "\<exists>x w'. generatePassword (Some 16) w = Inr (x, w') \<and> settled x"
proof -
  obtain x w' where g: "generatePassword (Some 16) w = Inr (x, w')"
    using generatePassword_length[of 16 w] by (auto simp: max_string_length_def)
  from generatePassword_no_brace[OF g] have "settled x" by (rule no_brace_settled)
  with g show ?thesis by simp
qed

lemma pass1_value_plain:
  assumes "\<not> has_expression s"
  shows "\<exists>x w'. pass1_value schema s w = Inr (x, w') \<and> settled x"
proof -
  have nd: "s \<noteq> ''${domain}''" and nh: "s \<noteq> ''${hash}''"
    using assms pieces_single[of "''domain''"] pieces_single[of "''hash''"]
    by (auto simp: has_expression_def)
  have ml: "match_length ''${base64:'' s = None" "match_length ''${password:'' s = None"
    "match_length ''${hash:'' s = None"
    using match_length_None[OF assms, of "''base64:''"] match_length_None[OF assms, of "''password:''"]
      match_length_None[OF assms, of "''hash:''"] by simp_all
  show ?thesis
  proof (cases "pass1_generates s")
    case True
    with nd nh ml generateBase64_32[of w] generateHash_8[of w] generatePassword_16[of w]
    show ?thesis
      by (auto simp: pass1_value_def pass1_generates_def)
  next
    case False
    with assms show ?thesis
      by (simp add: pass1_value_def pass1_generates_def settled_def)
  qed
qed

lemma set_update_subset: "set (AList.update k v al) \<subseteq> insert (k, v) (set al)"
  by (induction al) auto

lemma set_property_subset: "set (set_property k v obj) \<subseteq> insert (k, v) (set obj)"
  using set_update_subset[of k v obj] by (auto simp: set_property_def)

lemma distinct_set_property:
  "distinct (map fst obj) \<Longrightarrow> distinct (map fst (set_property k v obj))"
  by (simp add: set_property_def distinct_update)

lemma firstPass_plain:
  assumes "\<forall>kv \<in> set m. \<forall>s. snd kv = JStr s \<longrightarrow> \<not> has_expression s"
    and "\<forall>kv \<in> set processed. settled (snd kv)" and "distinct (map fst processed)"
    and "''__proto__'' \<notin> fst ` set processed"
  shows "\<exists>out w'. firstPass schema m processed w = Inr (out, w') \<and>
           (\<forall>kv \<in> set out. settled (snd kv)) \<and> distinct (map fst out) \<and>
           ''__proto__'' \<notin> fst ` set out"
  using assms
proof (induction m arbitrary: processed w)
  case Nil
  then show ?case by simp
next
  case (Cons e m)
  obtain key val where e: "e = (key, val)" by (cases e)
  have m: "\<forall>kv \<in> set m. \<forall>s. snd kv = JStr s \<longrightarrow> \<not> has_expression s"
    using Cons.prems(1) by simp
  show ?case
  proof (cases "\<exists>v. val = JStr v")
    case True
    then obtain v where v: "val = JStr v" by (elim exE)
    with Cons.prems(1) e have "\<not> has_expression v" by simp
    from pass1_value_plain[OF this, of schema w] obtain x w1 where
      p: "pass1_value schema v w = Inr (x, w1)" and sx: "settled x" by (elim exE conjE)
    have s: "\<forall>kv \<in> set (set_property key x processed). settled (snd kv)"
      using set_property_subset[of key x processed] Cons.prems(2) sx by auto
    have d: "distinct (map fst (set_property key x processed))"
      using Cons.prems(3) by (rule distinct_set_property)
    have n: "''__proto__'' \<notin> fst ` set (set_property key x processed)"
      using set_property_keys[OF Cons.prems(4), of key x] Cons.prems(4) by (auto split: if_splits)
    from Cons.IH[OF m s d n, of w1] show ?thesis using e v p by simp
  next
    case False
    from Cons.IH[OF m Cons.prems(2,3,4), of w] show ?thesis using e False by (cases val) auto
  qed
qed

lemma secondPass_plain:
  assumes "\<forall>kv \<in> set es. \<not> has_expression (snd kv) \<and> map_of processed (fst kv) = Some (snd kv)"
  shows "secondPass pf schema es processed w = Inr (processed, w)"
  using assms
proof (induction es)
  case Nil
  then show ?case by simp
next
  case (Cons e es)
  obtain key v where e: "e = (key, v)" by (cases e)
  with Cons.prems have "\<not> has_expression v" "map_of processed key = Some v" by auto
  then have "processValue pf schema processed v w = Inr (v, w)" "set_property key v processed = processed"
    by (simp_all add: processValue_plain update_triv set_property_def)
  with Cons e show ?case by simp
qed

lemma firstPass_settled:
  assumes "\<forall>kv \<in> set out. settled (snd kv)" "distinct (map fst out)"
    and "fst ` set processed \<inter> fst ` set out = {}" and "''__proto__'' \<notin> fst ` set out"
  shows "firstPass schema (map (\<lambda>kv. (fst kv, JStr (snd kv))) out) processed w
           = Inr (processed @ out, w)"
  using assms
proof (induction out arbitrary: processed)
  case Nil
  then show ?case by simp
next
  case (Cons e out)
  obtain key v where e: "e = (key, v)" by (cases e)
  with Cons.prems have sv: "settled v" and k: "key \<notin> fst ` set processed"
    and np: "key \<noteq> ''__proto__''" by auto
  then have p: "pass1_value schema v w = Inr (v, w)"
    by (simp add: settled_def pass1_value_def pass1_generates_def)
  have "AList.update key v processed = processed @ [(key, v)]"
    using k by (induction processed) auto
  with np have u: "set_property key v processed = processed @ [(key, v)]"
    by (simp add: set_property_stored)
  have i: "fst ` set (processed @ [(key, v)]) \<inter> fst ` set out = {}"
    using Cons.prems(2,3) e by auto
  from Cons.IH[OF _ _ i] Cons.prems(1,2,4) show ?case using e p u by simp
qed

section \<open>Facts about the validators\<close>

lemma errors_error [simp]: "errors (error msg st) = errors st @ [msg]"
  by (simp add: error_def)

lemma errors_warning [simp]: "errors (warning msg st) = errors st"
  by (simp add: warning_def)

lemma result_simps [simp]:
  "valid (result v st) = v" "errors (result v st) = errors st" "warnings (result v st) = warnings st"
  by (simp_all add: result_def)

lemma parseCompose_None:
  "parseCompose p f st = (None, st') \<Longrightarrow> errors st' \<noteq> []"
  by (auto simp: parseCompose_def split: read_result.splits option.splits)

lemma validateServicesExist_False:
  "validateServicesExist compose st = (False, st') \<Longrightarrow> errors st' \<noteq> []"
  by (auto simp: validateServicesExist_def split: if_splits)

lemma dc_validate_valid:
  "dc_validate options f st = Report r \<Longrightarrow> valid r \<longleftrightarrow> errors r = []"
  unfolding dc_validate_def
  by (auto simp: Let_def split: option.splits if_splits prod.splits bool.splits sum.splits
           dest: parseCompose_None validateServicesExist_False)

lemma validateTemplate_isValid:
  "validateTemplate pf p f cs st w = (b, st') \<Longrightarrow> b \<longleftrightarrow> errors st' = []"
  unfolding validateTemplate_def
  by (auto simp: Let_def split: read_result.splits option.splits domains_field.splits)

lemma validateTemplateDir_valid:
  "valid (validateTemplateDir pf dir st w) \<longleftrightarrow> errors (validateTemplateDir pf dir st w) = []"
  unfolding validateTemplateDir_def
  by (auto split: prod.splits dest: validateTemplate_isValid)

lemma validate_valid:
  "validate pf options fs st w = Report r \<Longrightarrow> valid r \<longleftrightarrow> errors r = []"
  unfolding validate_def
  by (auto simp: Let_def validateTemplateDir_valid split: if_splits)

lemma extends_refl [simp]: "extends_errors st st"
  by (simp add: extends_errors_def)

lemma extends_trans: "extends_errors a b \<Longrightarrow> extends_errors b c \<Longrightarrow> extends_errors a c"
  by (auto simp: extends_errors_def)

lemma extends_same: "errors st' = errors st \<Longrightarrow> extends_errors st st'"
  by (simp add: extends_errors_def)

lemma extends_error: "not_domain_error msg \<Longrightarrow> extends_errors st (error msg st)"
  by (simp add: extends_errors_def)

lemma validateHelper_errors [simp]: "errors (validateHelper pf h ctx st) = errors st"
  by (simp add: validateHelper_def Let_def split: list.splits option.splits)

lemma validateHelpers_errors [simp]: "errors (validateHelpers pf hs ctx st) = errors st"
  unfolding validateHelpers_def by (induction hs arbitrary: st) simp_all

lemma check_domain_errors:
  "errors (check_domain pf cs j d st) = errors st @ domain_errors cs j d"
proof -
  have h: "errors (case host d of
           Some (JStr h) \<Rightarrow> if h \<noteq> [] then (if \<not> includes_str h ''${'' then warning (m1 h) s4
                else validateHelpers pf (expressions h) c s4) else s4
         | _ \<Rightarrow> s4) = errors s4" for m1 c s4
    by (simp split: option.splits jsv.splits)
  have p: "errors (case port d of None \<Rightarrow> s3
           | Some p \<Rightarrow> (case port_number p of None \<Rightarrow> warning (m2 p) s3
                | Some n \<Rightarrow> if n < 1 \<or> n > 65535 then warning (m3 p) s3 else s3)) = errors s3" for m2 m3 s3
    by (simp split: option.splits)
  show ?thesis
    unfolding check_domain_def domain_errors_def Let_def h p
    by (cases "serviceName d"; cases "port d") simp_all
qed

lemma check_domains_errors:
  "errors (check_domains pf cs k ds st)
     = errors st @ concat (map (\<lambda>jd. domain_errors cs (fst jd) (snd jd)) (zip [k..<k + length ds] ds))"
proof (induction ds arbitrary: k st)
  case Nil
  then show ?case by simp
next
  case (Cons d ds)
  have "[k..<k + length (d # ds)] = k # [Suc k..<Suc k + length ds]"
    using upt_rec[of k "k + length (d # ds)"] by simp
  then show ?case using Cons[of "Suc k"] by (simp add: check_domain_errors)
qed

lemma extends_warning_step [simp]:
  "extends_errors st0 (warning msg st) = extends_errors st0 st"
  by (simp add: extends_errors_def)

lemma extends_error_step:
  "extends_errors st0 st \<Longrightarrow> c \<noteq> CHR ''d'' \<Longrightarrow> extends_errors st0 (error (c # rest) st)"
  by (auto simp: extends_errors_def not_domain_error_def)

lemma extends_same_errors:
  "errors st' = errors st \<Longrightarrow> extends_errors st0 st' = extends_errors st0 st"
  by (simp add: extends_errors_def)

lemma check_env_array_extends:
  "extends_errors st0 st \<Longrightarrow> extends_errors st0 (check_env_array k xs st)"
proof (induction xs arbitrary: k st)
  case Nil
  then show ?case by simp
next
  case (Cons e xs)
  show ?case unfolding check_env_array.simps
    by (rule Cons.IH) (cases e; simp add: Cons.prems extends_error_step)
qed

lemma check_env_extends:
  "extends_errors st0 st \<Longrightarrow> extends_errors st0 (check_env e st)"
  unfolding check_env_def
  by (auto simp: check_env_array_extends extends_error_step split: option.splits jsv.splits)

lemma check_mounts_extends:
  "extends_errors st0 st \<Longrightarrow> extends_errors st0 (check_mounts k ms st)"
proof (induction ms arbitrary: k st)
  case Nil
  then show ?case by simp
next
  case (Cons m ms)
  show ?case unfolding check_mounts.simps Let_def
    by (rule Cons.IH) (simp add: Cons.prems extends_error_step)
qed

lemma check_variable_values_extends:
  "extends_errors st0 st \<Longrightarrow> extends_errors st0 (check_variable_values pf raw st)"
proof (induction raw arbitrary: st)
  case Nil
  then show ?case by simp
next
  case (Cons kv raw)
  obtain key val where kv: "kv = (key, val)" by (cases kv)
  show ?case unfolding kv check_variable_values.simps
    by (rule Cons.IH)
       (cases val; simp add: Cons.prems extends_error_step extends_same_errors[of "validateHelpers _ _ _ _"])
qed

lemma warn_unresolved_errors [simp]: "errors (warn_unresolved raw key ns st) = errors st"
  by (induction ns arbitrary: st) simp_all

lemma check_resolved_errors [simp]: "errors (check_resolved raw pv st) = errors st"
  by (induction pv arbitrary: st) auto

lemma try_resolve_errors [simp]: "errors (fst (try_resolve pf pv v m1 m2 st w)) = errors st"
  by (simp add: try_resolve_def split: sum.splits prod.splits)

lemma resolve_hosts_errors [simp]: "errors (fst (resolve_hosts pf pv k ds st w)) = errors st"
proof (induction ds arbitrary: k st w)
  case Nil
  then show ?case by simp
next
  case (Cons d ds)
  obtain st' w' where s: "(case host d of
              Some (JStr h) \<Rightarrow> if h \<noteq> [] then try_resolve pf pv h
                    (\<lambda>r. ''domain['' @ dec_nat k
                          @ ''].host: could not fully resolve all variables. Result: '' @ r)
                    (\<lambda>m. ''domain['' @ dec_nat k @ ''].host: error processing host value: '' @ m)
                    st w else (st, w)
            | _ \<Rightarrow> (st, w)) = (st', w')" by fastforce
  have "errors (fst (st', w')) = errors st"
    unfolding s[symmetric] by (simp split: option.splits jsv.splits)
  then show ?case using Cons[of "Suc k" st' w'] s by simp
qed

lemma resolve_env_array_errors [simp]:
  "errors (fst (resolve_env_array pf pv k xs st w)) = errors st"
proof (induction xs arbitrary: k st w)
  case Nil
  then show ?case by simp
next
  case (Cons e xs)
  obtain st' w' where s: "(case e of
              JStr s \<Rightarrow>
                try_resolve pf pv s
                  (\<lambda>r. ''config.env['' @ dec_nat k @ '']: could not fully resolve all variables'')
                  (\<lambda>m. ''config.env['' @ dec_nat k @ '']: error processing env value: '' @ m)
                  st w
            | _ \<Rightarrow> (st, w)) = (st', w')" by fastforce
  have "errors (fst (st', w')) = errors st"
    unfolding s[symmetric] by (simp split: jsv.splits)
  then show ?case using Cons[of "Suc k" st' w'] s by simp
qed

lemma resolve_env_object_errors [simp]:
  "errors (fst (resolve_env_object pf pv kvs st w)) = errors st"
proof (induction kvs arbitrary: st w)
  case Nil
  then show ?case by simp
next
  case (Cons kv kvs)
  obtain key val where kv: "kv = (key, val)" by (cases kv)
  obtain st' w' where s: "(case val of
              JStr s \<Rightarrow>
                try_resolve pf pv s
                  (\<lambda>r. ''config.env.'' @ key @ '': could not fully resolve all variables'')
                  (\<lambda>m. ''config.env.'' @ key @ '': error processing env value: '' @ m)
                  st w
            | _ \<Rightarrow> (st, w)) = (st', w')" by fastforce
  have "errors (fst (st', w')) = errors st"
    unfolding s[symmetric] by (simp split: jsv.splits)
  then show ?case using Cons[of st' w'] s kv by simp
qed

lemma resolve_env_errors [simp]: "errors (fst (resolve_env pf pv e st w)) = errors st"
  by (simp add: resolve_env_def split: option.splits jsv.splits)

lemma resolve_mounts_errors [simp]:
  "errors (fst (resolve_mounts pf pv k ms st w)) = errors st"
proof (induction ms arbitrary: k st w)
  case Nil
  then show ?case by simp
next
  case (Cons m ms)
  obtain st1 w1 where s1: "(case filePath m of
              Some (JStr p) \<Rightarrow>
                if p \<noteq> [] then
                  try_resolve pf pv p
                    (\<lambda>r. ''config.mounts['' @ dec_nat k
                          @ ''].filePath: could not fully resolve all variables'')
                    (\<lambda>m. ''config.mounts['' @ dec_nat k
                          @ ''].filePath: error processing filePath: '' @ m)
                    st w
                else (st, w)
            | _ \<Rightarrow> (st, w)) = (st1, w1)" by fastforce
  have e1: "errors (fst (st1, w1)) = errors st"
    unfolding s1[symmetric] by (simp split: option.splits jsv.splits)
  obtain st2 w2 where s2: "(case content m of
                   Some (JStr c) \<Rightarrow>
                     if c \<noteq> [] then
                       try_resolve pf pv c
                         (\<lambda>r. ''config.mounts['' @ dec_nat k
                               @ ''].content: could not fully resolve all variables'')
                         (\<lambda>m. ''config.mounts['' @ dec_nat k
                               @ ''].content: error processing content: '' @ m)
                         st1 w1
                     else (st1, w1)
                 | _ \<Rightarrow> (st1, w1)) = (st2, w2)" by fastforce
  have e2: "errors (fst (st2, w2)) = errors st1"
    unfolding s2[symmetric] by (simp split: option.splits jsv.splits)
  show ?case using Cons[of "Suc k" st2 w2] s1 s2 e1 e2 by simp
qed

lemma resolution_test_extends:
  "extends_errors st0 st \<Longrightarrow> extends_errors st0 (resolution_test pf cfg raw st w)"
proof (cases "processVariables pf \<lparr>domain = None\<rparr> raw w")
  case (Inl e)
  assume "extends_errors st0 st"
  then show ?thesis unfolding resolution_test_def Inl
    by (simp add: extends_error_step)
next
  case (Inr r)
  assume a: "extends_errors st0 st"
  obtain processedVars w1 where r: "r = (processedVars, w1)" by (cases r)
  define sw2 where "sw2 = (case domains cfg of
                        Some (DomainsArray ds) \<Rightarrow> resolve_hosts pf processedVars 0 ds (check_resolved raw processedVars st) w1
                      | _ \<Rightarrow> (check_resolved raw processedVars st, w1))"
  define sw3 where "sw3 = resolve_env pf processedVars (env cfg) (fst sw2) (snd sw2)"
  have e2: "errors (fst sw2) = errors st"
    unfolding sw2_def by (simp split: option.splits domains_field.splits)
  have e3: "errors (fst sw3) = errors st"
    unfolding sw3_def using e2 by simp
  have e: "extends_errors st0 (fst sw3)" using a extends_same_errors[OF e3] by simp
  have "extends_errors st0 (case mounts cfg of
                None \<Rightarrow> fst sw3
              | Some MountsNotArray \<Rightarrow>
                  error (''Failed to process variables: data.config.mounts.forEach is not a function'')
                    (fst sw3)
              | Some (MountsArray ms) \<Rightarrow>
                  fst (resolve_mounts pf processedVars 0 ms (fst sw3) (snd sw3)))"
    using e by (simp add: extends_error_step extends_same_errors[OF resolve_mounts_errors]
                     split: option.splits mounts_field.splits)
  then show ?thesis
    unfolding resolution_test_def Inr r sw3_def sw2_def by (simp add: Let_def)
qed

lemma validateTemplate_domains:
  assumes "config data = Some cfg" "domains cfg = Some (DomainsArray ds)"
  shows "extends_errors (check_domains pf cs 0 ds st)
           (snd (validateTemplate pf p (Parsed data) cs st w))"
proof -
  define st1 where "st1 = check_domains pf cs 0 ds st"
  define st2 where "st2 = check_env (env cfg) st1"
  define st3 where "st3 = (case mounts cfg of
                                  None \<Rightarrow> st2
                                | Some MountsNotArray \<Rightarrow> error ''config.mounts must be an array'' st2
                                | Some (MountsArray ms) \<Rightarrow> check_mounts 0 ms st2)"
  define st4 where "st4 = (case variables data of
                                  None \<Rightarrow> st3
                                | Some VariablesNotObject \<Rightarrow> error ''variables must be an object'' st3
                                | Some (VariablesObject raw) \<Rightarrow>
                                    resolution_test pf cfg raw (check_variable_values pf raw st3) w)"
  have a: "extends_errors st1 st2"
    unfolding st2_def by (rule check_env_extends) simp
  have b: "extends_errors st1 st3"
    unfolding st3_def using a
    by (simp add: extends_error_step check_mounts_extends split: option.splits mounts_field.splits)
  have c: "extends_errors st1 st4"
    unfolding st4_def using b
    by (simp add: extends_error_step resolution_test_extends check_variable_values_extends
             split: option.splits variables_field.splits)
  have "snd (validateTemplate pf p (Parsed data) cs st w) = st4"
    unfolding st4_def st3_def st2_def st1_def by (simp add: validateTemplate_def assms Let_def)
  with c show ?thesis by (simp add: st1_def)
qed

lemma dec_nat_no_bracket: "CHR '']'' \<notin> set (dec_nat n)"
proof
  assume "CHR '']'' \<in> set (dec_nat n)"
  with dec_nat_digits[of n] have "is_digit CHR '']''" by (auto simp: list_all_iff)
  then show False by (simp add: is_digit_def)
qed

lemma dec_nat_inj: "dec_nat i = dec_nat j \<Longrightarrow> i = j"
  by (metis digits_val_dec_nat)

lemma prefix_upto_bracket:
  assumes "CHR '']'' \<notin> set a" "CHR '']'' \<notin> set b" "prefix (a @ CHR '']'' # x) (b @ CHR '']'' # y)"
  shows "a = b \<and> prefix x y"
proof -
  from assms(3) obtain z where z: "b @ CHR '']'' # y = a @ CHR '']'' # (x @ z)"
    by (auto simp: prefix_def)
  have "takeWhile (\<lambda>c. c \<noteq> CHR '']'') (b @ CHR '']'' # y) = b"
    using assms(2) by (rule takeWhile_upto)
  moreover have "takeWhile (\<lambda>c. c \<noteq> CHR '']'') (a @ CHR '']'' # (x @ z)) = a"
    using assms(1) by (rule takeWhile_upto)
  ultimately have ab: "a = b" using z by simp
  with z have "y = x @ z" by simp
  with ab show ?thesis by simp
qed

lemma reports_missing_service_domain:
  "reports_missing_service i (''domain['' @ dec_nat j @ '']'' @ rest)
     \<longleftrightarrow> i = j \<and> prefix ('': serviceName '' @ [CHR 0x27]) rest"
proof
  assume "reports_missing_service i (''domain['' @ dec_nat j @ '']'' @ rest)"
  then have "prefix (dec_nat i @ CHR '']'' # ('': serviceName '' @ [CHR 0x27])) (dec_nat j @ CHR '']'' # rest)"
    by (simp add: reports_missing_service_def)
  from prefix_upto_bracket[OF dec_nat_no_bracket dec_nat_no_bracket this]
  show "i = j \<and> prefix ('': serviceName '' @ [CHR 0x27]) rest"
    using dec_nat_inj by blast
next
  assume "i = j \<and> prefix ('': serviceName '' @ [CHR 0x27]) rest"
  then show "reports_missing_service i (''domain['' @ dec_nat j @ '']'' @ rest)"
    by (auto simp: reports_missing_service_def)
qed

lemma domain_errors_reports:
  assumes "e \<in> set (domain_errors cs j d)" "reports_missing_service i e"
  shows "i = j \<and> (\<exists>name. serviceName d = Some name \<and> name \<noteq> [] \<and> cs \<noteq> [] \<and> name \<notin> set cs)"
proof -
  have m1: "\<not> reports_missing_service i (''domain['' @ dec_nat j @ '']: Missing required field 'serviceName'' @ [CHR 0x27])"
    using reports_missing_service_domain[of i j "'': Missing required field 'serviceName'' @ [CHR 0x27]"]
    by simp
  have m2: "\<not> reports_missing_service i (''domain['' @ dec_nat j @ '']: Missing required field 'port'' @ [CHR 0x27])"
    using reports_missing_service_domain[of i j "'': Missing required field 'port'' @ [CHR 0x27]"]
    by simp
  have m3: "reports_missing_service i (service_not_found j name cs) \<Longrightarrow> i = j" for name
    using reports_missing_service_domain[of i j "'': serviceName '' @ quoted name
     @ '' not found in docker-compose.yml services. Available services: ''
     @ join '', '' cs"]
    by (simp add: service_not_found_def)
  from assms m1 m2 m3 show ?thesis
    by (auto simp: domain_errors_def split: if_splits option.splits)
qed

lemma not_domain_error_reports:
  "not_domain_error e \<Longrightarrow> \<not> reports_missing_service i e"
  by (auto simp: not_domain_error_def reports_missing_service_def prefix_def)

section \<open>Inherited members at work\<close>

text \<open>Over the empty map a template can name what a plain object inherits: \<open>${toString}\<close>
  is replaced by the text of that function, an own empty string hides the inherited
  member, the \<open>jwt:\<close> branch passes an inherited function as the secret to \<open>Buffer.from\<close>,
  which throws, and an inherited payload leaves the payload segment of the token empty.
  A write under \<open>__proto__\<close> leaves a plain object as it was.\<close>

lemma inherited_member_examples:
  "returned (processValue example_platform example_schema [] ''${toString}'' example_world)
     = Inr ''function toString() { [native code] }'' \<and>
   returned (processValue example_platform example_schema [] ''${__proto__}'' example_world)
     = Inr ''[object Object]'' \<and>
   returned (processValue example_platform example_schema [(''constructor'', '''')] ''${constructor}''
               example_world)
     = Inr ''${constructor}'' \<and>
   returned (processValue example_platform example_schema [] ''${jwt:constructor}'' example_world)
     = Inl (TypeError ''The first argument must be of type string or an instance of Buffer, ArrayBuffer, or Array or an Array-like Object.'') \<and>
   returned (processValue example_platform example_schema [] ''${jwt:s:__proto__}'' example_world)
     = Inr ''eyJhbGciOiJIUzI1NiIsInR5cCI6IkpXVCJ9.e30.cw'' \<and>
   set_property ''__proto__'' ''x'' [] = [] \<and>
   set_property ''constructor'' ''x'' [] = [(''constructor'', ''x'')]"
  by code_simp

section \<open>C2: the length of a generated password\<close>



text \<open>
  The two paths of the program disagree on \<open>password:0\<close>. The callback of \<open>processValue\<close>
  computes \<open>Number.parseInt(n, 10) || 16\<close>, where \<open>0\<close> is falsy, and returns sixteen
  characters; the first pass of \<open>processVariables\<close> tests the digits as a string
  (\<open>match?.[1] ? ... : 16\<close>), where \<open>"0"\<close> is truthy, and stores the empty string for the
  same \<open>${password:0}\<close>.
\<close>

lemma password_zero_two_paths:
  "returned (resolveHelper example_platform example_schema [] ''password:0'' example_world)
     = Inr ''abcdefghijklmnop'' \<and>
   returned (pass1_value example_schema ''${password:0}'' example_world) = Inr []"
  by code_simp



section \<open>C4: an unknown expression is left as it is\<close>




section \<open>C7: \<open>randomPort\<close> with a suffix\<close>

text \<open>
  Claim C7 says that \<open>randomPort:<suffix>\<close> resolves like the bare \<open>randomPort\<close>, to a random
  port number. The callback compares \<open>varName === "randomPort"\<close> and has no
  \<open>startsWith("randomPort:")\<close> branch: with a suffix the expression is left as it is, while
  the bare tag yields a number.
\<close>

theorem C7_randomPort_suffix_counterexample:
  "returned (processValue example_platform example_schema [] ''${randomPort:80}'' example_world)
     = Inr ''${randomPort:80}'' \<and>
   returned (processValue example_platform example_schema [] ''${randomPort}'' example_world)
     = Inr ''0''"
  by (simp add: returned_def processValue_def match_at_def startsWith_def resolveHelper_def
        random_below_def example_world_def dec_nat.simps digit_char_def replace_vars_def str_or_def
        property_or_def get_property_def prototype_names_def)

text \<open>
  C7 as amended: only the bare tag \<open>randomPort\<close> generates a port number (a decimal numeral
  below 65535). An expression \<open>randomPort:<suffix>\<close> is an ordinary variable reference: it is
  replaced by the non-empty value of the key \<open>randomPort:<suffix>\<close> when the map has one, and
  left as the literal text otherwise; it consumes no random number.
\<close>

theorem C7_randomPort_suffix_is_a_lookup:
  "resolveHelper pf schema vs (''randomPort:'' @ sfx) w =
     Inr (str_or (map_of vs (''randomPort:'' @ sfx)) (''${randomPort:'' @ sfx @ ''}''), w) \<and>
   resolveHelper pf schema vs ''randomPort'' w =
     Inr (dec_nat (w 0 mod 65535), \<lambda>i. w (Suc i))"
proof -
  have "\<not> is_helper_call (''randomPort:'' @ sfx)"
    by (simp add: is_helper_call_def helper_names_def helper_openings_def startsWith_def)
  moreover have "''randomPort:'' @ sfx \<notin> set prototype_names"
    by (simp add: prototype_names_def)
  ultimately have "resolveHelper pf schema vs (''randomPort:'' @ sfx) w =
     Inr (str_or (map_of vs (''randomPort:'' @ sfx)) (''${'' @ (''randomPort:'' @ sfx) @ ''}''), w)"
    by (simp add: lookup_dispatch own_lookup)
  moreover have "resolveHelper pf schema vs ''randomPort'' w =
     Inr (dec_nat (w 0 mod 65535), \<lambda>i. w (Suc i))"
    by (simp add: resolveHelper_def startsWith_def random_below_def)
  ultimately show ?thesis by simp
qed

section \<open>C9: a variable bound to the empty string\<close>

text \<open>
  Claim C9 says that for every key \<open>k\<close> bound to the empty string every \<open>${k}\<close> stays the
  literal text. The helper branches of the callback come before the lookup, so a key that
  is named like a helper is never looked up: with \<open>hash\<close> bound to the empty string,
  \<open>${hash}\<close> still becomes a random hash.
\<close>

theorem C9_helper_named_key_counterexample:
  "map_of ([(''hash'', '''')] :: vars) ''hash'' = Some '''' \<and>
   returned (processValue example_platform example_schema [(''hash'', '''')] ''${hash}'' example_world)
     = Inr ''0001020304050607''"
  by code_simp

text \<open>
  C9 as amended: for every map \<open>m\<close> and key \<open>k\<close> bound in \<open>m\<close> to the empty string, when
  \<open>k\<close> is not itself a helper expression, the template \<open>${k}\<close> is returned as the literal
  text \<open>${k}\<close>; and when \<open>k\<close> is not the name of a member inherited from
  \<open>Object.prototype\<close>, \<open>processValue\<close> returns for every template what it returns when
  \<open>k\<close> is removed from \<open>m\<close> (an empty value behaves as an undefined variable).
\<close>

theorem C9_empty_value_as_undefined:
  assumes "map_of m k = Some []"
  shows "(\<not> is_helper_call k \<and> k \<noteq> [] \<and> CHR ''}'' \<notin> set k \<longrightarrow>
            processValue pf schema m (''${'' @ k @ ''}'') w = Inr (''${'' @ k @ ''}'', w)) \<and>
         (k \<notin> set prototype_names \<longrightarrow>
            processValue pf schema m t w = processValue pf schema (AList.delete k m) t w)"
proof -
  have a: "processValue pf schema m t w = processValue pf schema (AList.delete k m) t w"
    if "k \<notin> set prototype_names"
    by (rule processValue_cong) (simp add: visible_delete[OF assms that])
  have "processValue pf schema m (''${'' @ k @ ''}'') w = Inr (''${'' @ k @ ''}'', w)"
    if b: "\<not> is_helper_call k" "k \<noteq> []" "CHR ''}'' \<notin> set k"
  proof -
    have p: "pieces (''${'' @ k @ ''}'') = [Expr k]" using b(2,3) by (rule pieces_single)
    have l: "property_or (get_property m k) (''${'' @ k @ ''}'') = ''${'' @ k @ ''}''"
      using assms by (rule empty_lookup)
    have r: "resolveHelper pf schema m k w = Inr (''${'' @ k @ ''}'', w)"
      using b(1) l by (simp add: lookup_dispatch)
    have "replace_vars m (''${'' @ k @ ''}'') = ''${'' @ k @ ''}''"
      unfolding replace_vars_def p using l by simp
    then show ?thesis unfolding processValue_def p using r by simp
  qed
  with a show ?thesis by simp
qed

theorem C9_empty_value_as_undefined_witness:
  "map_of ([(''a'', ''''), (''b'', ''x'')] :: vars) ''a'' = Some '''' \<and>
   \<not> is_helper_call ''a'' \<and>
   processValue example_platform example_schema [(''a'', ''''), (''b'', ''x'')] ''${a}'' example_world
     = Inr (''${a}'', example_world) \<and>
   ''a'' \<notin> set prototype_names \<and>
   processValue example_platform example_schema [(''a'', ''''), (''b'', ''x'')] ''${a}-${b}'' example_world
     = processValue example_platform example_schema [(''b'', ''x'')] ''${a}-${b}'' example_world"
proof -
  have m: "map_of [(''a'', ''''), (''b'', ''x'')] ''a'' = Some []" by simp
  have h: "\<not> is_helper_call ''a''"
    by (simp add: is_helper_call_def helper_names_def helper_openings_def startsWith_def)
  have n: "''a'' \<notin> set prototype_names" by (simp add: prototype_names_def)
  from C9_empty_value_as_undefined[OF m, of example_platform example_schema example_world "''${a}-${b}''"] m h n
  show ?thesis by simp
qed

section \<open>C3: the payload of a generated token\<close>

lemma generateJwt_payload:
  assumes "generateJwt None secret payload w = Inr (out, w')"
    and "payload = None \<or> payload = Some (JObj [])"
  shows "\<exists>sig. out = jwt_header @ ''.'' @ toBase64url ''{}'' @ ''.'' @ sig"
proof -
  have p: "(case payload of None \<Rightarrow> JObj [] | Some p \<Rightarrow> if truthy payload then p else JObj []) = JObj []"
    using assms(2) by (auto simp: truthy_def)
  from assms(1) show ?thesis
    unfolding generateJwt_def Let_def p
    by (auto split: sum.splits prod.splits if_splits)
qed

lemma split_single: "length (split c s) = 1 \<Longrightarrow> split c s = [s]"
proof (induction s)
  case Nil
  then show ?case by simp
next
  case (Cons x xs)
  then show ?case
    using split_not_Nil[of c xs] by (cases "split c xs") (auto split: if_splits)
qed

lemma jwt_payload_undefined:
  "(if typeof_property payload \<noteq> ''object'' then None else payload_object payload) = None \<or>
   (if typeof_property payload \<noteq> ''object'' then None else payload_object payload) = Some (JObj [])"
  by (cases payload) (simp_all add: typeof_property_def payload_object_def)

lemma jwt_payload_segment_always_empty:
  assumes "resolveHelper pf schema vs (''jwt:'' @ rest) w = Inr (out, w')"
    and "\<not> digits_1_3 rest"
  shows "\<exists>sig. out = jwt_header @ ''.'' @ toBase64url ''{}'' @ ''.'' @ sig"
proof -
  define params where "params = split CHR '':'' rest"
  have s: "tl (split CHR '':'' (''jwt:'' @ rest)) = params"
    using split_append_sep[of "CHR '':''" "''jwt''" rest] by (simp add: params_def)
  have d: "resolveHelper pf schema vs (''jwt:'' @ rest) w
             = jwt_params pf vs (''jwt:'' @ rest) w"
    by (simp add: resolveHelper_def startsWith_def)
  have nl: "\<not> (length params = 1 \<and> hd params \<noteq> [] \<and> digits_1_3 (hd params))"
    using assms(2) split_single[of "CHR '':''" rest] by (auto simp: params_def)
  define payload0 where
    "payload0 = (case nth_opt params 1 of None \<Rightarrow> Undefined | Some p \<Rightarrow> StringValue p)"
  define payload where "payload =
               (case payload0 of
                  StringValue p \<Rightarrow>
                    if truthy_property (get_property vs p) then get_property vs p
                    else payload0
                | _ \<Rightarrow> payload0)"
  define parsed where
    "parsed = (if typeof_property payload \<noteq> ''object'' then None else payload_object payload)"
  have pp: "parsed = None \<or> parsed = Some (JObj [])"
    unfolding parsed_def by (rule jwt_payload_undefined)
  obtain secret where j: "jwt_params pf vs (''jwt:'' @ rest) w = generateJwt None secret parsed w"
    unfolding jwt_params_def s Let_def payload0_def[symmetric] payload_def[symmetric]
      parsed_def[symmetric]
    using nl by auto
  with assms(1) d show ?thesis using generateJwt_payload[of secret parsed w out w', OF _ pp] by simp
qed

text \<open>
  Claim C3: for \<open>jwt:secret:payload\<close>, when the second parameter names a variable whose
  value is a JSON object literal, the middle segment of the token is the base64url
  encoding of that object. The source parses the literal into \<open>parsedPayload\<close> and then
  overwrites it: the test \<open>typeof payload !== "object"\<close> looks at \<open>payload\<close>, which is still
  the string, so the parsed object is always dropped and the token always carries the
  empty object (\<open>jwt_payload_segment_always_empty\<close> above). At the variable
  \<open>p = {"a":1}\<close> the expression \<open>${jwt:s:p}\<close> gives the payload segment \<open>e30\<close>, the
  encoding of \<open>{}\<close>, where the claim has \<open>eyJhIjoxfQ\<close>, the encoding of \<open>{"a":1}\<close>.
\<close>

theorem C3_jwt_payload_dropped:
  "json_parse parsing_platform payload_text = Some (JObj [(''a'', JNum 1)]) \<and>
   returned (processValue parsing_platform example_schema [(''p'', payload_text)] ''${jwt:s:p}''
               example_world)
     = Inr ''eyJhbGciOiJIUzI1NiIsInR5cCI6IkpXVCJ9.e30.cw'' \<and>
   toBase64url (stringify (JObj [])) = ''e30'' \<and>
   toBase64url (stringify (JObj [(''a'', JNum 1)])) = ''eyJhIjoxfQ''"
  by code_simp

section \<open>C10: the keys of the resolved map\<close>

text \<open>
  For every map that \<open>processVariables\<close> returns, a key other than \<open>__proto__\<close> is in the
  output exactly when the input binds it to a string; and for an input with distinct keys
  (the entries of an object) the keys of the output come in the order of the input. The
  output never has the key \<open>__proto__\<close>.
\<close>

lemma processVariables_keys:
  assumes "processVariables pf schema m w = Inr (out, w')"
  shows "set (map fst out) = {k. k \<noteq> ''__proto__'' \<and> (\<exists>s. (k, JStr s) \<in> set m)}"
    and "distinct (map fst m) \<Longrightarrow>
           map fst out
             = map fst (filter (\<lambda>kv. string_valued (snd kv) \<and> fst kv \<noteq> ''__proto__'') m)"
proof -
  from assms obtain processed w1 where
    f: "firstPass schema m [] w = Inr (processed, w1)"
    and s: "secondPass pf schema processed processed w1 = Inr (out, w')"
    by (auto simp: processVariables_def split: sum.splits)
  have k: "map fst out = map fst processed"
    using secondPass_keys[OF s] by simp
  show "set (map fst out) = {k. k \<noteq> ''__proto__'' \<and> (\<exists>s. (k, JStr s) \<in> set m)}"
    using firstPass_keys_set[OF f] k by simp
  show "map fst out
          = map fst (filter (\<lambda>kv. string_valued (snd kv) \<and> fst kv \<noteq> ''__proto__'') m)"
    if "distinct (map fst m)"
    using firstPass_keys_list[OF f that] k by simp
qed

text \<open>
  Claim C10: the map returned by \<open>processVariables\<close> has exactly the keys of the input
  whose values are strings: every string-valued input key appears in the output. The
  first loop copies every string entry with \<open>processed[key] = ...\<close>, and \<open>processed\<close> is a
  plain object: under the key \<open>__proto__\<close> that write stores nothing. For the input with
  the two string entries \<open>__proto__\<close> and \<open>a\<close> the output has the one key \<open>a\<close>.
\<close>

theorem C10_proto_key_dropped:
  "string_valued (JStr ''x'') \<and>
   returned (processVariables example_platform example_schema
               [(''__proto__'', JStr ''x''), (''a'', JStr ''y'')] example_world)
     = Inr [(''a'', ''y'')]"
  by code_simp

section \<open>C1: what the first pass materializes\<close>





section \<open>C6: resolving a resolved map again\<close>

text \<open>
  Claim C6: on a map in which no value contains a \<open>${...}\<close> expression,
  \<open>processVariables\<close> applied twice gives what it gives applied once. For every such map
  the first application returns a map (it raises no exception), and applying
  \<open>processVariables\<close> to that map, in any later state of the world, returns the same map.
  A value has no expression when the scan of \<open>/\${([^}]+)}/g\<close> finds no match in it.
\<close>

theorem C6_idempotent_on_resolved:
  assumes "\<forall>kv \<in> set m. \<forall>s. snd kv = JStr s \<longrightarrow> \<not> has_expression s"
  shows "\<exists>out w1. processVariables pf schema m w = Inr (out, w1) \<and>
           (\<forall>w2. processVariables pf schema (map (\<lambda>kv. (fst kv, JStr (snd kv))) out) w2
                   = Inr (out, w2))"
proof -
  from firstPass_plain[OF assms, of "[]" schema w] obtain out w1 where
    f: "firstPass schema m [] w = Inr (out, w1)"
    and s: "\<forall>kv \<in> set out. settled (snd kv)" and d: "distinct (map fst out)"
    and n: "''__proto__'' \<notin> fst ` set out"
    by auto
  have sp: "secondPass pf schema out out w' = Inr (out, w')" for w'
    by (rule secondPass_plain) (use s d in \<open>auto simp: settled_def\<close>)
  have one: "processVariables pf schema m w = Inr (out, w1)"
    by (simp add: processVariables_def f sp)
  have "firstPass schema (map (\<lambda>kv. (fst kv, JStr (snd kv))) out) [] w2 = Inr (out, w2)" for w2
    using firstPass_settled[OF s d _ n, of "[]" schema w2] by simp
  then have "processVariables pf schema (map (\<lambda>kv. (fst kv, JStr (snd kv))) out) w2 = Inr (out, w2)" for w2
    by (simp add: processVariables_def sp)
  with one show ?thesis by blast
qed

theorem C6_idempotent_on_resolved_witness:
  "\<not> has_expression ''plain text'' \<and> \<not> has_expression ''${base64:'' \<and>
   (\<exists>out w1.
      processVariables example_platform example_schema
        [(''a'', JStr ''plain text''), (''n'', JNum 1), (''b'', JStr ''${base64:'')] example_world
        = Inr (out, w1) \<and>
      (\<forall>w2. processVariables example_platform example_schema
               (map (\<lambda>kv. (fst kv, JStr (snd kv))) out) w2 = Inr (out, w2)))"
proof -
  have a: "\<not> has_expression ''plain text''"
    by (simp add: has_expression_def match_at_def startsWith_def)
  have b: "\<not> has_expression ''${base64:''"
    by (simp add: has_expression_def match_at_def startsWith_def)
  have h: "\<forall>kv \<in> set [(''a'', JStr ''plain text''), (''n'', JNum 1), (''b'', JStr ''${base64:'')].
             \<forall>s. snd kv = JStr s \<longrightarrow> \<not> has_expression s"
    using a b by simp
  from C6_idempotent_on_resolved[OF h, of example_platform example_schema example_world] a b
  show ?thesis by (intro conjI)
qed

section \<open>C5: a domain whose service is not in the manifest\<close>

text \<open>
  Claim C5 says that for every descriptor and manifest a domain declaration whose
  \<open>serviceName\<close> is absent from the manifest's service set yields at least one error
  naming it. The source guards the check with \<open>composeServices.length > 0\<close>: against a
  manifest without services the service \<open>worker\<close> is absent from the (empty) service set,
  and the report has no error at all.
\<close>

theorem C5_empty_manifest_counterexample:
  "serviceName (hd [\<lparr>serviceName = Some ''worker'', port = Some (PortNum 3000),
                      host = Some (JStr ''${main_domain}''), path = None\<rparr>]) = Some ''worker'' \<and>
   ''worker'' \<notin> set (map fst ([] :: (string \<times> DefinitionsService option) list)) \<and>
   errors (validateTemplateDir example_platform (blueprint [] ''worker'' ''${main_domain}'') fresh
             example_world) = [] \<and>
   valid (validateTemplateDir example_platform (blueprint [] ''worker'' ''${main_domain}'') fresh
            example_world)"
  by code_simp

text \<open>
  C5 as amended: for every manifest that was parsed and has at least one service, and
  every descriptor with a configuration section and a domain array, a domain entry whose
  non-empty \<open>serviceName\<close> is not among the manifest's services makes the report carry the
  error \<open>domain[i]: serviceName '<name>' not found ...\<close>, which names the service, and the
  report is not valid; and when the service is among the manifest's services, the report
  of a fresh validator has no error that starts \<open>domain[i]: serviceName '\<close>.
\<close>

theorem C5_missing_service_error:
  assumes "composeFile dir = Parsed (Some compose)" "services compose = Some svcs"
    and "tomlFile dir = Parsed data" "config data = Some cfg" "domains cfg = Some (DomainsArray ds)"
    and "i < length ds" "serviceName (ds ! i) = Some name" "name \<noteq> []"
  shows "(svcs \<noteq> [] \<and> name \<notin> set (map fst svcs) \<longrightarrow>
            service_not_found i name (map fst svcs) \<in> set (errors (validateTemplateDir pf dir st w)) \<and>
            sublist name (service_not_found i name (map fst svcs)) \<and>
            \<not> valid (validateTemplateDir pf dir st w)) \<and>
         (name \<in> set (map fst svcs) \<longrightarrow>
            (\<forall>e \<in> set (errors (validateTemplateDir pf dir fresh w)). \<not> reports_missing_service i e))"
proof -
  define cs where "cs = map fst svcs"
  have pc: "\<exists>st1. parseComposeServices (composeFilePath dir) (composeFile dir) s = (cs, st1) \<and>
              errors st1 = errors s" for s
    by (simp add: parseComposeServices_def assms(1,2) cs_def Let_def)
  have ex: "\<exists>es.
      errors (validateTemplateDir pf dir s w) =
        errors s @ concat (map (\<lambda>jd. domain_errors cs (fst jd) (snd jd)) (zip [0..<length ds] ds)) @ es
      \<and> list_all not_domain_error es" for s
  proof -
    from pc[of s] obtain st1 where st1: "parseComposeServices (composeFilePath dir) (composeFile dir) s = (cs, st1)"
      "errors st1 = errors s" by blast
    from validateTemplate_domains[OF assms(4,5), of pf cs st1 "tomlFilePath dir" w]
    obtain es where es: "errors (snd (validateTemplate pf (tomlFilePath dir) (Parsed data) cs st1 w))
        = errors (check_domains pf cs 0 ds st1) @ es" "list_all not_domain_error es"
      by (auto simp: extends_errors_def)
    have "errors (validateTemplateDir pf dir s w)
            = errors (snd (validateTemplate pf (tomlFilePath dir) (Parsed data) cs st1 w))"
      by (simp add: validateTemplateDir_def st1 assms(3) split: prod.splits)
    with es st1 show ?thesis by (simp add: check_domains_errors)
  qed
  have zi: "(i, ds ! i) \<in> set (zip [0..<length ds] ds)"
    using assms(6) by (auto simp: in_set_zip intro!: exI[of _ i])
  have p1: "service_not_found i name cs \<in> set (errors (validateTemplateDir pf dir st w)) \<and>
            sublist name (service_not_found i name cs) \<and> \<not> valid (validateTemplateDir pf dir st w)"
    if h: "svcs \<noteq> []" "name \<notin> set cs"
  proof -
    have "service_not_found i name cs \<in> set (domain_errors cs i (ds ! i))"
      using h assms(7,8) by (simp add: domain_errors_def cs_def)
    with zi have "service_not_found i name cs
        \<in> set (concat (map (\<lambda>jd. domain_errors cs (fst jd) (snd jd)) (zip [0..<length ds] ds)))"
      by (auto intro!: bexI[of _ "(i, ds ! i)"])
    then have c: "service_not_found i name cs \<in> set (errors st @
        concat (map (\<lambda>jd. domain_errors cs (fst jd) (snd jd)) (zip [0..<length ds] ds)) @ es)" for es
      by simp
    from ex[of st] obtain es where "errors (validateTemplateDir pf dir st w) = errors st @
        concat (map (\<lambda>jd. domain_errors cs (fst jd) (snd jd)) (zip [0..<length ds] ds)) @ es"
      by blast
    with c[of es] have m: "service_not_found i name cs \<in> set (errors (validateTemplateDir pf dir st w))"
      by simp
    then have "errors (validateTemplateDir pf dir st w) \<noteq> []" by auto
    then have v: "\<not> valid (validateTemplateDir pf dir st w)"
      by (simp add: validateTemplateDir_valid)
    have "sublist name (service_not_found i name cs)"
      unfolding service_not_found_def quoted_def sublist_def
      by (rule exI[of _ "''domain['' @ dec_nat i @ '']: serviceName '' @ [CHR 0x27]"],
          rule exI[of _ "[CHR 0x27] @ '' not found in docker-compose.yml services. Available services: '' @ join '', '' cs"])
         simp
    with m v show ?thesis by blast
  qed
  have p2: "\<not> reports_missing_service i e"
    if h: "name \<in> set cs" and e: "e \<in> set (errors (validateTemplateDir pf dir fresh w))" for e
  proof
    assume r: "reports_missing_service i e"
    from ex[of fresh] obtain es where
      es: "errors (validateTemplateDir pf dir fresh w) =
        concat (map (\<lambda>jd. domain_errors cs (fst jd) (snd jd)) (zip [0..<length ds] ds)) @ es"
      "list_all not_domain_error es"
      by (auto simp: fresh_def)
    from e es r not_domain_error_reports have
      "e \<in> set (concat (map (\<lambda>jd. domain_errors cs (fst jd) (snd jd)) (zip [0..<length ds] ds)))"
      by (auto simp: list_all_iff)
    then obtain j d where jd: "(j, d) \<in> set (zip [0..<length ds] ds)" "e \<in> set (domain_errors cs j d)"
      by auto
    then have d: "d = ds ! j" by (auto simp: in_set_zip)
    from domain_errors_reports[OF jd(2) r] obtain name' where
      "i = j" "serviceName d = Some name'" "name' \<notin> set cs" by blast
    with d assms(7) h show False by simp
  qed
  from p1 p2 show ?thesis unfolding cs_def by blast
qed

theorem C5_missing_service_error_witness:
  "service_not_found 0 ''worker'' [''web'']
     \<in> set (errors (validateTemplateDir example_platform
                      (blueprint [(''web'', Some web_service)] ''worker'' ''${main_domain}'') fresh
                      example_world)) \<and>
   sublist ''worker'' (service_not_found 0 ''worker'' [''web'']) \<and>
   \<not> valid (validateTemplateDir example_platform
              (blueprint [(''web'', Some web_service)] ''worker'' ''${main_domain}'') fresh
              example_world) \<and>
   list_all (\<lambda>e. \<not> reports_missing_service 0 e)
     (errors (validateTemplateDir example_platform
                (blueprint [(''web'', Some web_service)] ''web'' ''${main_domain}'') fresh
                example_world))"
proof -
  let ?svcs = "[(''web'', Some web_service)]"
  let ?compose = "\<lparr>services = Some ?svcs, top_networks = None\<rparr>"
  let ?d = "\<lambda>name. \<lparr>serviceName = Some name, port = Some (PortNum 3000),
                      host = Some (JStr ''${main_domain}''), path = None\<rparr>"
  let ?cfg = "\<lambda>name. \<lparr>domains = Some (DomainsArray [?d name]),
         env = Some (JArr [JStr ''PORT=3000'']), mounts = Some (MountsArray [])\<rparr>"
  have a: "(?svcs \<noteq> [] \<and> ''worker'' \<notin> set (map fst ?svcs) \<longrightarrow>
            service_not_found 0 ''worker'' (map fst ?svcs)
              \<in> set (errors (validateTemplateDir example_platform
                      (blueprint ?svcs ''worker'' ''${main_domain}'') fresh example_world)) \<and>
            sublist ''worker'' (service_not_found 0 ''worker'' (map fst ?svcs)) \<and>
            \<not> valid (validateTemplateDir example_platform
                      (blueprint ?svcs ''worker'' ''${main_domain}'') fresh example_world)) \<and>
         (''worker'' \<in> set (map fst ?svcs) \<longrightarrow>
            (\<forall>e \<in> set (errors (validateTemplateDir example_platform
                      (blueprint ?svcs ''worker'' ''${main_domain}'') fresh example_world)).
               \<not> reports_missing_service 0 e))"
    by (rule C5_missing_service_error[where compose = ?compose and data = "descriptor ''worker'' ''${main_domain}''"
          and cfg = "?cfg ''worker''" and ds = "[?d ''worker'']"])
       (simp_all add: blueprint_def manifest_def descriptor_def)
  have b: "(?svcs \<noteq> [] \<and> ''web'' \<notin> set (map fst ?svcs) \<longrightarrow>
            service_not_found 0 ''web'' (map fst ?svcs)
              \<in> set (errors (validateTemplateDir example_platform
                      (blueprint ?svcs ''web'' ''${main_domain}'') fresh example_world)) \<and>
            sublist ''web'' (service_not_found 0 ''web'' (map fst ?svcs)) \<and>
            \<not> valid (validateTemplateDir example_platform
                      (blueprint ?svcs ''web'' ''${main_domain}'') fresh example_world)) \<and>
         (''web'' \<in> set (map fst ?svcs) \<longrightarrow>
            (\<forall>e \<in> set (errors (validateTemplateDir example_platform
                      (blueprint ?svcs ''web'' ''${main_domain}'') fresh example_world)).
               \<not> reports_missing_service 0 e))"
    by (rule C5_missing_service_error[where compose = ?compose and data = "descriptor ''web'' ''${main_domain}''"
          and cfg = "?cfg ''web''" and ds = "[?d ''web'']"])
       (simp_all add: blueprint_def manifest_def descriptor_def)
  from a b show ?thesis by (simp add: list_all_iff)
qed

section \<open>C8: the valid flag of a report\<close>

text \<open>
  Claim C8: the report a \<open>validate\<close> call returns has \<open>valid = true\<close> exactly when its
  \<open>errors\<close> are empty, whatever its warnings. This holds for the report of
  \<open>DockerComposeValidator.validate\<close> and for that of \<open>TemplateValidator.validate\<close>, from any
  state of the instance (a call that ends in \<open>process.exit\<close> or in an exception returns no
  report). The flag is thus a function of the errors alone: the witness below has a valid
  report that carries a warning.
\<close>

theorem C8_valid_iff_no_errors:
  "(dc_validate options f st = Report r \<longrightarrow> (valid r \<longleftrightarrow> errors r = [])) \<and>
   (validate pf toptions fs st' w = Report r' \<longrightarrow> (valid r' \<longleftrightarrow> errors r' = []))"
  using dc_validate_valid[of options f st r] validate_valid[of pf toptions fs st' w r']
  by auto

theorem C8_valid_iff_no_errors_witness:
  "validate example_platform \<lparr>templateDir = Some ''bp'', t_exitOnError = False\<rparr>
     (\<lambda>d. blueprint [(''web'', Some web_service)] ''web'' ''static.example.com'') fresh example_world
     = Report (validateTemplateDir example_platform
                 (blueprint [(''web'', Some web_service)] ''web'' ''static.example.com'') fresh
                 example_world) \<and>
   (valid (validateTemplateDir example_platform
             (blueprint [(''web'', Some web_service)] ''web'' ''static.example.com'') fresh
             example_world)
     \<longleftrightarrow> errors (validateTemplateDir example_platform
             (blueprint [(''web'', Some web_service)] ''web'' ''static.example.com'') fresh
             example_world) = []) \<and>
   valid (validateTemplateDir example_platform
             (blueprint [(''web'', Some web_service)] ''web'' ''static.example.com'') fresh
             example_world) \<and>
   length (warnings (validateTemplateDir example_platform
             (blueprint [(''web'', Some web_service)] ''web'' ''static.example.com'') fresh
             example_world)) = 1 \<and>
   dc_validate \<lparr>composePath = Some ''bp/docker-compose.yml'', exitOnError = False\<rparr>
     (manifest [(''web'', Some (web_service\<lparr>ports := Some [PortString ''8080:80'']\<rparr>))]) fresh
     = Report (result False (error
         (''Service 'web': ports[0] uses port mapping format '8080:80'. According to README, use only port number (e.g., '3000') instead of '3000:3000'. Dokploy handles port routing.'')
         fresh))"
proof -
  let ?r = "validateTemplateDir example_platform
              (blueprint [(''web'', Some web_service)] ''web'' ''static.example.com'') fresh
              example_world"
  have v: "valid ?r" by code_simp
  have n: "length (warnings ?r) = 1" by code_simp
  have e: "validate example_platform \<lparr>templateDir = Some ''bp'', t_exitOnError = False\<rparr>
     (\<lambda>d. blueprint [(''web'', Some web_service)] ''web'' ''static.example.com'') fresh example_world
     = Report ?r"
    by (simp add: validate_def)
  have d: "dc_validate \<lparr>composePath = Some ''bp/docker-compose.yml'', exitOnError = False\<rparr>
     (manifest [(''web'', Some (web_service\<lparr>ports := Some [PortString ''8080:80'']\<rparr>))]) fresh
     = Report (result False (error
         (''Service 'web': ports[0] uses port mapping format '8080:80'. According to README, use only port number (e.g., '3000') instead of '3000:3000'. Dokploy handles port routing.'')
         fresh))"
    by code_simp
  have "valid ?r \<longleftrightarrow> errors ?r = []"
    using C8_valid_iff_no_errors[where pf = example_platform
        and toptions = "\<lparr>templateDir = Some ''bp'', t_exitOnError = False\<rparr>"
        and fs = "\<lambda>d. blueprint [(''web'', Some web_service)] ''web'' ''static.example.com''"
        and st' = fresh and w = example_world and r' = ?r,
        THEN conjunct2, THEN mp, OF e] .
  with e v n d show ?thesis by (intro conjI)
qed

end
